theory Spec2Isabelle
  imports Main "HOL-Library.Signed_Division" "HOL-Library.Sublist"
begin

text \<open>
  The repository holds four versions of one hardware-qualification wizard: a windowed
  program and a terminal program, both in \<^verbatim>\<open>main.go\<close>, and two further terminal programs,
  \<^verbatim>\<open>part_000\<close> and \<^verbatim>\<open>part_001\<close>. The terminal programs are Bubble Tea models: a function
  \<^verbatim>\<open>Update\<close> takes the next message and the model and returns the new model and a
  command; the runtime runs commands concurrently and feeds the messages they return
  back into \<^verbatim>\<open>Update\<close>, one at a time. This theory embeds \<^verbatim>\<open>Update\<close> of the three
  terminal programs, the commands, the log writer and \<^verbatim>\<open>main\<close>, the event loop as a step
  function on configurations, and the two handlers of the windowed program that decide
  when a log is written.
\<close>

section \<open>The inventory record\<close>

text \<open>
  The structs of the terminal variants (\<^verbatim>\<open>SystemInfo\<close> and its parts). Go lets two
  structs share a field name; a record field is a constant, so every field carries the
  name of its struct in front. \<^verbatim>\<open>Cache\<close> is a \<^verbatim>\<open>map[string]string\<close> that the log
  writer walks with \<^verbatim>\<open>range\<close>: it is kept as the list of its entries in the order of
  that walk.
\<close>

record ProcessorInfo =
  Processor_Model :: string
  Processor_Cores :: int
  Processor_Threads :: int
  Processor_Frequency :: string
  Processor_Cache :: "(string \<times> string) list"

record MemorySlot =
  Slot_ID :: string
  Slot_Size :: string
  Slot_Type :: string
  Slot_Speed :: string
  Slot_Manufacturer :: string

record MemoryInfo =
  Memory_Total :: string
  Memory_Slots :: "MemorySlot list"

record NetworkInfo =
  Network_Interface :: string
  Network_Model :: string
  Network_MAC :: string

record GPUInfo =
  GPU_Model :: string
  GPU_Memory :: string
  GPU_Driver :: string
  GPU_Vendor :: string
  GPU_Architecture :: string
  GPU_Resolution :: string
  GPU_OpenGLVersion :: string

record StorageInfo =
  Storage_Type :: string
  Storage_Model :: string
  Storage_Size :: string
  Storage_Label :: string

record SystemInfo =
  Processor :: ProcessorInfo
  Memory :: MemoryInfo
  Network :: "NetworkInfo list"
  GPU :: GPUInfo
  Storage :: "StorageInfo list"
  SerialNumber :: string

section \<open>Messages, commands and the model of the terminal wizard\<close>

text \<open>
  The states of \<^verbatim>\<open>main.go\<close> (terminal variant) and of \<^verbatim>\<open>part_001\<close>; \<^verbatim>\<open>part_000\<close> has
  no \<^verbatim>\<open>stateSerialSuccess\<close> and gets an enumeration of its own.
\<close>

datatype state =
    stateInit
  | stateShowInfo
  | stateVideoTest
  | stateAskVideoOk
  | stateAskSerial
  | stateCheckSerial
  | stateSerialSuccess
  | stateSerialError
  | stateCreateLogs
  | stateDone

datatype state_p0 =
    stateInit_p0
  | stateShowInfo_p0
  | stateVideoTest_p0
  | stateAskVideoOk_p0
  | stateAskSerial_p0
  | stateCheckSerial_p0
  | stateSerialError_p0
  | stateCreateLogs_p0
  | stateDone_p0

text \<open>
  A key press reaches \<^verbatim>\<open>Update\<close> as a \<^verbatim>\<open>tea.KeyMsg\<close>, and \<^verbatim>\<open>Update\<close> looks only at
  \<^verbatim>\<open>msg.String()\<close>: the message carries that string. \<^verbatim>\<open>otherMsg\<close> stands for
  every message of a type that no case of \<^verbatim>\<open>Update\<close> names: those that the spinner and
  the text input send to themselves (spinner ticks, cursor blinks, pastes) and the mouse
  events that \<^verbatim>\<open>main\<close> asks the runtime for.
\<close>

datatype msg =
    KeyMsg string
  | WindowSizeMsg int int
  | errMsg string
  | sysInfoCollectedMsg SystemInfo string
  | startVideoTestMsg
  | videoTestTimerTickMsg
  | videoTestDoneMsg
  | serialMatchedMsg
  | serialMismatchMsg string string
  | restartMsg
  | shutdownMsg
  | logCreatedMsg string
  | otherMsg nat

text \<open>
  What \<^verbatim>\<open>Update\<close> and \<^verbatim>\<open>Init\<close> hand back to the runtime. The closures of the source
  are constructors that keep the values the closure has captured:
  \<^item> \<^verbatim>\<open>checkSerialCmd e s\<close> is \<^verbatim>\<open>func() tea.Msg { return checkSerialNumberCmd(m.userSerial, m.sysInfo.SerialNumber) }\<close>;
  \<^item> \<^verbatim>\<open>createLogCmd i d t s\<close> is \<^verbatim>\<open>func() tea.Msg { return createLogFilesCmd(m.sysInfo, m.dmidecodeRaw, m.testPassed, true) }\<close>;
  \<^item> \<^verbatim>\<open>rebootCmd\<close> is \<^verbatim>\<open>func() tea.Msg { exec.Command("reboot").Run(); return restartMsg{} }\<close>,
    and \<^verbatim>\<open>poweroffCmd\<close> the same with \<^verbatim>\<open>poweroff\<close> and \<^verbatim>\<open>shutdownMsg\<close>;
  \<^item> \<^verbatim>\<open>tea_Tick\<close> is \<^verbatim>\<open>tea.Tick(time.Second, ...)\<close> returning \<^verbatim>\<open>videoTestTimerTickMsg\<close>;
  \<^item> \<^verbatim>\<open>componentCmd\<close> is whatever \<^verbatim>\<open>spinner.Update\<close> or \<^verbatim>\<open>textInput.Update\<close> returned.
\<close>

datatype cmd =
    nil_cmd
  | tea_Quit
  | checkRootCmd
  | spinner_Tick
  | collectSystemInfoCmd
  | startVideoTestCmd
  | tea_Tick
  | checkSerialCmd string string
  | createLogCmd SystemInfo string bool bool
  | rebootCmd
  | poweroffCmd
  | componentCmd

text \<open>
  The \<^verbatim>\<open>model\<close> struct. Of the text input only its value is kept (\<^verbatim>\<open>Value()\<close> reads
  the field, \<^verbatim>\<open>SetValue("")\<close> empties it), of the viewport its two sizes; the spinner has
  no state that \<^verbatim>\<open>Update\<close> reads. Times are nanoseconds on the monotonic clock. The type
  of \<^verbatim>\<open>state\<close> is a parameter, since the variants differ in their enumeration.
\<close>

record 'st model =
  state :: 'st
  sysInfo :: SystemInfo
  width :: int
  height :: int
  textInput :: string
  viewport_Width :: int
  viewport_Height :: int
  err :: "string option"
  userSerial :: string
  dmidecodeRaw :: string
  logFilePath :: string
  showOverlay :: bool
  overlayContent :: string
  videoTestActive :: bool
  videoTestColor :: int
  videoTestStart :: int
  testPassed :: bool
  serialMatched :: bool

definition emptySystemInfo :: SystemInfo where
  "emptySystemInfo =
     \<lparr>Processor = \<lparr>Processor_Model = [], Processor_Cores = 0, Processor_Threads = 0,
                    Processor_Frequency = [], Processor_Cache = []\<rparr>,
      Memory = \<lparr>Memory_Total = [], Memory_Slots = []\<rparr>,
      Network = [],
      GPU = \<lparr>GPU_Model = [], GPU_Memory = [], GPU_Driver = [], GPU_Vendor = [],
              GPU_Architecture = [], GPU_Resolution = [], GPU_OpenGLVersion = []\<rparr>,
      Storage = [],
      SerialNumber = []\<rparr>"

text \<open>\<^verbatim>\<open>initialModel\<close>, with Go's zero values for the fields it does not set.\<close>

definition initialModelOf :: "'st \<Rightarrow> 'st model" where
  "initialModelOf s =
     \<lparr>state = s, sysInfo = emptySystemInfo, width = 0, height = 0, textInput = [],
      viewport_Width = 80, viewport_Height = 20, err = None, userSerial = [],
      dmidecodeRaw = [], logFilePath = [], showOverlay = False, overlayContent = [],
      videoTestActive = False, videoTestColor = 0, videoTestStart = 0,
      testPassed = False, serialMatched = False\<rparr>"

definition initialModel :: "state model" where
  "initialModel = initialModelOf stateInit"

definition initialModel_p0 :: "state_p0 model" where
  "initialModel_p0 = initialModelOf stateInit_p0"

text \<open>\<^verbatim>\<open>Init\<close>: \<^verbatim>\<open>tea.Batch(checkRootCmd, spinner.Tick, collectSystemInfoCmd)\<close>.\<close>

definition Init :: "cmd list" where
  "Init = [checkRootCmd, spinner_Tick, collectSystemInfoCmd]"

section \<open>The identity verifier\<close>

text \<open>\<^verbatim>\<open>checkSerialNumberCmd\<close>, the same in all three terminal variants.\<close>

definition checkSerialNumberCmd :: "string \<Rightarrow> string \<Rightarrow> msg" where
  "checkSerialNumberCmd entered system =
     (if entered = system then serialMatchedMsg else serialMismatchMsg entered system)"

section \<open>Update, terminal variant of main.go\<close>

text \<open>
  \<^verbatim>\<open>int(time.Since(m.videoTestStart).Seconds())\<close>: the whole seconds of a duration in
  nanoseconds, cut towards zero as Go's conversion to \<^verbatim>\<open>int\<close> does.
\<close>

definition elapsedSeconds :: "int \<Rightarrow> int \<Rightarrow> int" where
  "elapsedSeconds now t0 = (now - t0) sdiv 1000000000"

text \<open>
  \<^verbatim>\<open>Update\<close> is one function in the source; here its key case (\<open>onKey\<close>, with the
  Enter case \<open>onEnter\<close>), its timer case (\<open>onTick\<close>) and its last switch
  (\<open>components\<close>) are definitions of their own.

  The last switch of \<^verbatim>\<open>Update\<close>, reached by every message that no case above has
  answered with a \<^verbatim>\<open>return\<close>. What \<^verbatim>\<open>textInput.Update\<close> does with a message is code of
  the bubbles library, so the function \<open>ti\<close>, from the message and the old value to the
  new value, is a parameter.
\<close>

definition components ::
    "(msg \<Rightarrow> string \<Rightarrow> string) \<Rightarrow> msg \<Rightarrow> state model \<Rightarrow> state model \<times> cmd" where
  "components ti msg m =
     (case state m of
        stateInit \<Rightarrow> (m, componentCmd)
      | stateAskSerial \<Rightarrow> (m\<lparr>textInput := ti msg (textInput m)\<rparr>, componentCmd)
      | _ \<Rightarrow> (m, nil_cmd))"

definition onEnter :: "(msg \<Rightarrow> string \<Rightarrow> string) \<Rightarrow> int \<Rightarrow> state model \<Rightarrow> state model \<times> cmd" where
  "onEnter ti now m =
     (case state m of
        stateShowInfo \<Rightarrow>
          (m\<lparr>state := stateVideoTest, videoTestActive := True, videoTestColor := 0,
             videoTestStart := now\<rparr>, startVideoTestCmd)
      | stateAskVideoOk \<Rightarrow>
          (m\<lparr>state := stateAskSerial, showOverlay := True, testPassed := True\<rparr>, nil_cmd)
      | stateAskSerial \<Rightarrow>
          (m\<lparr>userSerial := textInput m, state := stateCheckSerial\<rparr>,
           checkSerialCmd (textInput m) (SerialNumber (sysInfo m)))
      | stateSerialSuccess \<Rightarrow>
          (m\<lparr>state := stateCreateLogs, showOverlay := True\<rparr>,
           createLogCmd (sysInfo m) (dmidecodeRaw m) (testPassed m) True)
      | stateSerialError \<Rightarrow>
          (m\<lparr>state := stateAskSerial, textInput := []\<rparr>, nil_cmd)
      | stateDone \<Rightarrow> (m, tea_Quit)
      | _ \<Rightarrow> components ti (KeyMsg ''enter'') m)"

definition onKey :: "(msg \<Rightarrow> string \<Rightarrow> string) \<Rightarrow> int \<Rightarrow> string \<Rightarrow> state model \<Rightarrow> state model \<times> cmd" where
  "onKey ti now k m =
     (if videoTestActive m \<and> videoTestColor m = 3 then
        (m\<lparr>videoTestActive := False, state := stateAskVideoOk, showOverlay := True\<rparr>, nil_cmd)
      else if k = ''ctrl+c'' \<or> k = ''q'' then (m, tea_Quit)
      else if k = ''enter'' then onEnter ti now m
      else if k = ''n'' \<and> state m = stateAskVideoOk then
        (m\<lparr>state := stateVideoTest, videoTestActive := True, videoTestColor := 0,
           videoTestStart := now, testPassed := False\<rparr>, startVideoTestCmd)
      else if k = ''r'' \<and> state m = stateSerialError then (m, rebootCmd)
      else if k = ''e'' \<and> state m = stateSerialError then (m, poweroffCmd)
      else components ti (KeyMsg k) m)"

definition onTick :: "int \<Rightarrow> state model \<Rightarrow> state model \<times> cmd" where
  "onTick now m =
     (if videoTestActive m then
        (if videoTestColor m = 3 then (m, tea_Tick)
         else if elapsedSeconds now (videoTestStart m) \<ge> 6 then
           (m\<lparr>videoTestColor := 3\<rparr>, tea_Tick)
         else
           (m\<lparr>videoTestColor := (elapsedSeconds now (videoTestStart m) sdiv 2) smod 3\<rparr>,
            tea_Tick))
      else (m, nil_cmd))"

definition Update ::
    "(msg \<Rightarrow> string \<Rightarrow> string) \<Rightarrow> int \<Rightarrow> msg \<Rightarrow> state model \<Rightarrow> state model \<times> cmd" where
  "Update ti now msg m =
     (case msg of
        KeyMsg k \<Rightarrow> onKey ti now k m
      | WindowSizeMsg w h \<Rightarrow>
          components ti msg
            (m\<lparr>width := w, height := h, viewport_Width := w, viewport_Height := h - 6\<rparr>)
      | errMsg e \<Rightarrow> (m\<lparr>err := Some e\<rparr>, tea_Quit)
      | sysInfoCollectedMsg si raw \<Rightarrow>
          (m\<lparr>sysInfo := si, dmidecodeRaw := raw, state := stateShowInfo\<rparr>, nil_cmd)
      | startVideoTestMsg \<Rightarrow> (m, tea_Tick)
      | videoTestTimerTickMsg \<Rightarrow> onTick now m
      | videoTestDoneMsg \<Rightarrow> (m\<lparr>videoTestActive := False, state := stateAskVideoOk\<rparr>, nil_cmd)
      | serialMatchedMsg \<Rightarrow>
          (m\<lparr>state := stateSerialSuccess, showOverlay := True, serialMatched := True\<rparr>, nil_cmd)
      | serialMismatchMsg entered system \<Rightarrow>
          (m\<lparr>state := stateSerialError, userSerial := entered, showOverlay := True,
             serialMatched := False\<rparr>, nil_cmd)
      | logCreatedMsg fileName \<Rightarrow> (m\<lparr>state := stateDone, logFilePath := fileName\<rparr>, nil_cmd)
      | _ \<Rightarrow> components ti msg m)"

section \<open>Update, variant part_000\<close>

text \<open>
  \<^verbatim>\<open>part_000\<close> has no held pattern and no success screen: the timer ends the display
  test by itself after eight seconds, and \<^verbatim>\<open>serialMatchedMsg\<close> starts the log writer
  at once.
\<close>

definition components_p0 ::
    "(msg \<Rightarrow> string \<Rightarrow> string) \<Rightarrow> msg \<Rightarrow> state_p0 model \<Rightarrow> state_p0 model \<times> cmd" where
  "components_p0 ti msg m =
     (case state m of
        stateInit_p0 \<Rightarrow> (m, componentCmd)
      | stateAskSerial_p0 \<Rightarrow> (m\<lparr>textInput := ti msg (textInput m)\<rparr>, componentCmd)
      | _ \<Rightarrow> (m, nil_cmd))"

definition onEnter_p0 ::
    "(msg \<Rightarrow> string \<Rightarrow> string) \<Rightarrow> int \<Rightarrow> state_p0 model \<Rightarrow> state_p0 model \<times> cmd" where
  "onEnter_p0 ti now m =
     (case state m of
        stateShowInfo_p0 \<Rightarrow>
          (m\<lparr>state := stateVideoTest_p0, videoTestActive := True, videoTestColor := 0,
             videoTestStart := now\<rparr>, startVideoTestCmd)
      | stateAskVideoOk_p0 \<Rightarrow>
          (m\<lparr>state := stateAskSerial_p0, showOverlay := True, testPassed := True\<rparr>, nil_cmd)
      | stateAskSerial_p0 \<Rightarrow>
          (m\<lparr>userSerial := textInput m, state := stateCheckSerial_p0\<rparr>,
           checkSerialCmd (textInput m) (SerialNumber (sysInfo m)))
      | stateSerialError_p0 \<Rightarrow>
          (m\<lparr>state := stateAskSerial_p0, textInput := []\<rparr>, nil_cmd)
      | stateDone_p0 \<Rightarrow> (m, tea_Quit)
      | _ \<Rightarrow> components_p0 ti (KeyMsg ''enter'') m)"

definition onKey_p0 ::
    "(msg \<Rightarrow> string \<Rightarrow> string) \<Rightarrow> int \<Rightarrow> string \<Rightarrow> state_p0 model \<Rightarrow> state_p0 model \<times> cmd" where
  "onKey_p0 ti now k m =
     (if k = ''ctrl+c'' \<or> k = ''q'' then (m, tea_Quit)
      else if k = ''enter'' then onEnter_p0 ti now m
      else if k = ''n'' \<and> state m = stateAskVideoOk_p0 then
        (m\<lparr>state := stateVideoTest_p0, videoTestActive := True, videoTestColor := 0,
           videoTestStart := now, testPassed := False\<rparr>, startVideoTestCmd)
      else if k = ''r'' \<and> state m = stateSerialError_p0 then (m, rebootCmd)
      else if k = ''e'' \<and> state m = stateSerialError_p0 then (m, poweroffCmd)
      else components_p0 ti (KeyMsg k) m)"

definition onTick_p0 :: "int \<Rightarrow> state_p0 model \<Rightarrow> state_p0 model \<times> cmd" where
  "onTick_p0 now m =
     (if videoTestActive m then
        (if elapsedSeconds now (videoTestStart m) \<ge> 8 then
           (m\<lparr>videoTestActive := False, state := stateAskVideoOk_p0\<rparr>, nil_cmd)
         else
           (m\<lparr>videoTestColor := (elapsedSeconds now (videoTestStart m) sdiv 2) smod 4\<rparr>,
            tea_Tick))
      else (m, nil_cmd))"

definition Update_p0 ::
    "(msg \<Rightarrow> string \<Rightarrow> string) \<Rightarrow> int \<Rightarrow> msg \<Rightarrow> state_p0 model \<Rightarrow> state_p0 model \<times> cmd" where
  "Update_p0 ti now msg m =
     (case msg of
        KeyMsg k \<Rightarrow> onKey_p0 ti now k m
      | WindowSizeMsg w h \<Rightarrow>
          components_p0 ti msg
            (m\<lparr>width := w, height := h, viewport_Width := w, viewport_Height := h - 6\<rparr>)
      | errMsg e \<Rightarrow> (m\<lparr>err := Some e\<rparr>, tea_Quit)
      | sysInfoCollectedMsg si raw \<Rightarrow>
          (m\<lparr>sysInfo := si, dmidecodeRaw := raw, state := stateShowInfo_p0\<rparr>, nil_cmd)
      | startVideoTestMsg \<Rightarrow> (m, tea_Tick)
      | videoTestTimerTickMsg \<Rightarrow> onTick_p0 now m
      | videoTestDoneMsg \<Rightarrow>
          (m\<lparr>videoTestActive := False, state := stateAskVideoOk_p0\<rparr>, nil_cmd)
      | serialMatchedMsg \<Rightarrow>
          (m\<lparr>state := stateCreateLogs_p0, showOverlay := True, serialMatched := True\<rparr>,
           createLogCmd (sysInfo m) (dmidecodeRaw m) (testPassed m) True)
      | serialMismatchMsg entered system \<Rightarrow>
          (m\<lparr>state := stateSerialError_p0, userSerial := entered, showOverlay := True,
             serialMatched := False\<rparr>, nil_cmd)
      | logCreatedMsg fileName \<Rightarrow>
          (m\<lparr>state := stateDone_p0, logFilePath := fileName\<rparr>, nil_cmd)
      | _ \<Rightarrow> components_p0 ti msg m)"

section \<open>Update, variant part_001\<close>

text \<open>
  \<^verbatim>\<open>part_001\<close> is the terminal variant of \<^verbatim>\<open>main.go\<close> with a one-second interval in
  the display test and with the key \<^verbatim>\<open>b\<close>, which goes back to the inventory screen from
  every state but the first two and the serial entry. Its last switch and its Enter
  cases are those of \<^verbatim>\<open>main.go\<close>.
\<close>

definition onKey_p1 ::
    "(msg \<Rightarrow> string \<Rightarrow> string) \<Rightarrow> int \<Rightarrow> string \<Rightarrow> state model \<Rightarrow> state model \<times> cmd" where
  "onKey_p1 ti now k m =
     (if videoTestActive m \<and> videoTestColor m = 3 then
        (m\<lparr>videoTestActive := False, state := stateAskVideoOk, showOverlay := True\<rparr>, nil_cmd)
      else if k = ''ctrl+c'' \<or> k = ''q'' then (m, tea_Quit)
      else if k = ''enter'' then onEnter ti now m
      else if k = ''n'' \<and> state m = stateAskVideoOk then
        (m\<lparr>state := stateVideoTest, videoTestActive := True, videoTestColor := 0,
           videoTestStart := now, testPassed := False\<rparr>, startVideoTestCmd)
      else if k = ''r'' \<and> state m = stateSerialError then (m, rebootCmd)
      else if k = ''e'' \<and> state m = stateSerialError then (m, poweroffCmd)
      else if k = ''b'' \<and> state m \<noteq> stateInit \<and> state m \<noteq> stateShowInfo
              \<and> state m \<noteq> stateAskSerial then
        (m\<lparr>state := stateShowInfo, showOverlay := False, videoTestActive := False\<rparr>, nil_cmd)
      else components ti (KeyMsg k) m)"

definition onTick_p1 :: "int \<Rightarrow> state model \<Rightarrow> state model \<times> cmd" where
  "onTick_p1 now m =
     (if videoTestActive m then
        (if videoTestColor m = 3 then (m, tea_Tick)
         else if elapsedSeconds now (videoTestStart m) \<ge> 3 then
           (m\<lparr>videoTestColor := 3\<rparr>, tea_Tick)
         else
           (m\<lparr>videoTestColor := elapsedSeconds now (videoTestStart m) smod 3\<rparr>, tea_Tick))
      else (m, nil_cmd))"

definition Update_p1 ::
    "(msg \<Rightarrow> string \<Rightarrow> string) \<Rightarrow> int \<Rightarrow> msg \<Rightarrow> state model \<Rightarrow> state model \<times> cmd" where
  "Update_p1 ti now msg m =
     (case msg of
        KeyMsg k \<Rightarrow> onKey_p1 ti now k m
      | videoTestTimerTickMsg \<Rightarrow> onTick_p1 now m
      | _ \<Rightarrow> Update ti now msg m)"

section \<open>The log writer\<close>

text \<open>\<^verbatim>\<open>%d\<close> and \<^verbatim>\<open>%t\<close> of \<^verbatim>\<open>fmt.Sprintf\<close>.\<close>

fun decimal :: "nat \<Rightarrow> string" where
  "decimal n =
     (if n < 10 then [''0123456789'' ! n]
      else decimal (n div 10) @ [''0123456789'' ! (n mod 10)])"

definition Sprintf_d :: "int \<Rightarrow> string" where
  "Sprintf_d i = (if i < 0 then ''-'' @ decimal (nat (- i)) else decimal (nat i))"

definition Sprintf_t :: "bool \<Rightarrow> string" where
  "Sprintf_t b = (if b then ''true'' else ''false'')"

text \<open>
  The text that \<^verbatim>\<open>createLogFilesCmd\<close> builds in \<^verbatim>\<open>logContent\<close>, one definition for
  each block of the source; its parameters \<open>raw\<close>, \<open>passed\<close> and \<open>matched\<close> are the
  source's \<^verbatim>\<open>dmidecodeRaw\<close>, \<^verbatim>\<open>testPassed\<close> and \<^verbatim>\<open>serialMatched\<close>, renamed because
  the fields of the model have these names. \<open>date\<close> is \<^verbatim>\<open>time.Now().Format(time.RFC1123)\<close>. The two
  serial lines of the test results both print \<^verbatim>\<open>info.SerialNumber\<close>, as the source
  does. This is the writer of \<^verbatim>\<open>main.go\<close> and of \<^verbatim>\<open>part_001\<close>, which are the same text;
  the writer of \<^verbatim>\<open>part_000\<close> lacks the last four optional lines of the GPU block, and no
  statement below is about the text it writes.
\<close>

definition logHeader :: "string \<Rightarrow> SystemInfo \<Rightarrow> string" where
  "logHeader date info =
     ''==== TROUBADOUR SYSTEM DIAGNOSTICS LOG ====\<newline>\<newline>''
     @ ''Date: '' @ date @ ''\<newline>''
     @ ''Serial Number: '' @ SerialNumber info @ ''\<newline>\<newline>''"

definition logCacheLine :: "string \<times> string \<Rightarrow> string" where
  "logCacheLine e = ''  '' @ fst e @ '': '' @ snd e @ ''\<newline>''"

definition logProcessor :: "ProcessorInfo \<Rightarrow> string" where
  "logProcessor p =
     ''==== PROCESSOR ====\<newline>''
     @ ''Model: '' @ Processor_Model p @ ''\<newline>''
     @ ''Cores: '' @ Sprintf_d (Processor_Cores p)
       @ '' (Threads: '' @ Sprintf_d (Processor_Threads p) @ '')\<newline>''
     @ ''Frequency: '' @ Processor_Frequency p @ ''\<newline>''
     @ ''Cache:\<newline>''
     @ concat (map logCacheLine (Processor_Cache p))
     @ ''\<newline>''"

definition logSlotLine :: "MemorySlot \<Rightarrow> string" where
  "logSlotLine slot =
     ''Slot '' @ Slot_ID slot @ '': '' @ Slot_Manufacturer slot @ '' '' @ Slot_Size slot
     @ '' @ '' @ Slot_Speed slot @ '' ['' @ Slot_Type slot @ '']\<newline>''"

definition logMemory :: "MemoryInfo \<Rightarrow> string" where
  "logMemory mem =
     ''==== MEMORY ====\<newline>''
     @ ''Total: '' @ Memory_Total mem @ ''\<newline>''
     @ concat (map logSlotLine (Memory_Slots mem))
     @ ''\<newline>''"

definition logNetLines :: "NetworkInfo \<Rightarrow> string" where
  "logNetLines net =
     ''Interface: '' @ Network_Interface net @ ''\<newline>''
     @ ''Model: '' @ Network_Model net @ ''\<newline>''
     @ ''MAC: '' @ Network_MAC net @ ''\<newline>\<newline>''"

definition logNetwork :: "NetworkInfo list \<Rightarrow> string" where
  "logNetwork nets = ''==== NETWORK ====\<newline>'' @ concat (map logNetLines nets)"

definition logOptional :: "string \<Rightarrow> string \<Rightarrow> string" where
  "logOptional label v = (if v \<noteq> [] then label @ v @ ''\<newline>'' else [])"

definition logGPU :: "GPUInfo \<Rightarrow> string" where
  "logGPU g =
     ''==== GPU ====\<newline>''
     @ ''Model: '' @ GPU_Model g @ ''\<newline>''
     @ logOptional ''Memory: '' (GPU_Memory g)
     @ logOptional ''Driver: '' (GPU_Driver g)
     @ logOptional ''Vendor: '' (GPU_Vendor g)
     @ logOptional ''Architecture: '' (GPU_Architecture g)
     @ logOptional ''Resolution: '' (GPU_Resolution g)
     @ logOptional ''OpenGL Version: '' (GPU_OpenGLVersion g)
     @ ''\<newline>''"

definition logStorageLines :: "StorageInfo \<Rightarrow> string" where
  "logStorageLines st =
     ''Type: '' @ Storage_Type st @ ''\<newline>''
     @ ''Model: '' @ Storage_Model st @ ''\<newline>''
     @ ''Size: '' @ Storage_Size st @ ''\<newline>''
     @ logOptional ''Label: '' (Storage_Label st)
     @ ''\<newline>''"

definition logStorage :: "StorageInfo list \<Rightarrow> string" where
  "logStorage sts = ''==== STORAGE ====\<newline>'' @ concat (map logStorageLines sts)"

definition logTestResults :: "SystemInfo \<Rightarrow> bool \<Rightarrow> bool \<Rightarrow> string" where
  "logTestResults info passed matched =
     ''==== TEST RESULTS ====\<newline>''
     @ ''Video Test Passed: '' @ Sprintf_t passed @ ''\<newline>''
     @ ''Serial Number Check: '' @ Sprintf_t matched @ ''\<newline>''
     @ ''Entered Serial Number: '' @ SerialNumber info @ ''\<newline>''
     @ ''System Serial Number: '' @ SerialNumber info @ ''\<newline>\<newline>''"

definition logContent :: "string \<Rightarrow> SystemInfo \<Rightarrow> string \<Rightarrow> bool \<Rightarrow> bool \<Rightarrow> string" where
  "logContent date info raw passed matched =
     logHeader date info
     @ logProcessor (Processor info)
     @ logMemory (Memory info)
     @ logNetwork (Network info)
     @ logGPU (GPU info)
     @ logStorage (Storage info)
     @ logTestResults info passed matched
     @ ''==== RAW DMIDECODE DATA ====\<newline>''
     @ raw"

text \<open>
  What the operating system answers while a command runs: the effective user id, the
  outcome of the hardware probe (an error text, or the inventory with the raw
  \<^verbatim>\<open>dmidecode\<close> output), the errors of \<^verbatim>\<open>os.MkdirAll\<close> and \<^verbatim>\<open>os.WriteFile\<close>, the two
  formatted readings of the clock, and the message that a command of the spinner or of
  the text input delivers, if any.
\<close>

record world =
  euid :: int
  probe :: "string + SystemInfo \<times> string"
  mkdirErr :: "string option"
  writeErr :: "string option"
  clock_stamp :: string
  clock_RFC1123 :: string
  component :: "nat option"

datatype effect =
    MkdirAll string
  | WriteFile string string
  | exec_Run string

definition logsDir :: string where
  "logsDir = ''./troubadour_logs''"

definition logFileName :: "string \<Rightarrow> SystemInfo \<Rightarrow> string" where
  "logFileName stamp info =
     logsDir @ ''/troubadour_'' @ SerialNumber info @ ''_'' @ stamp @ ''.log''"

text \<open>
  \<^verbatim>\<open>createLogFilesCmd\<close>: the message it returns and what it has done to the file system
  by then.
\<close>

definition createLogFilesCmd ::
    "world \<Rightarrow> SystemInfo \<Rightarrow> string \<Rightarrow> bool \<Rightarrow> bool \<Rightarrow> msg \<times> effect list" where
  "createLogFilesCmd w info raw passed matched =
     (case mkdirErr w of
        Some e \<Rightarrow> (errMsg e, [])
      | None \<Rightarrow>
          (case writeErr w of
             Some e \<Rightarrow> (errMsg e, [MkdirAll logsDir])
           | None \<Rightarrow>
               (logCreatedMsg (logFileName (clock_stamp w) info),
                [MkdirAll logsDir,
                 WriteFile (logFileName (clock_stamp w) info)
                   (logContent (clock_RFC1123 w) info raw passed matched)])))"

section \<open>The runtime: one message at a time\<close>

text \<open>
  The text of the error that \<^verbatim>\<open>checkRootCmd\<close> reports is Russian in the source; no
  handler reads it, and an ASCII text stands in for it.
\<close>

definition rootRequired :: string where
  "rootRequired = ''this program must be run as root''"

text \<open>
  Running a command: the message it sends back (\<open>None\<close> where the source returns
  \<^verbatim>\<open>nil\<close>) and its effects. \<^verbatim>\<open>collectSystemInfoCmd\<close> asks the hardware probe, which is
  outside this model, and wraps its answer. \<^verbatim>\<open>tea.Quit\<close> is handled by the loop.
\<close>

definition runCmd :: "world \<Rightarrow> cmd \<Rightarrow> msg option \<times> effect list" where
  "runCmd w c =
     (case c of
        nil_cmd \<Rightarrow> (None, [])
      | tea_Quit \<Rightarrow> (None, [])
      | checkRootCmd \<Rightarrow> (if euid w \<noteq> 0 then Some (errMsg rootRequired) else None, [])
      | spinner_Tick \<Rightarrow> (map_option otherMsg (component w), [])
      | collectSystemInfoCmd \<Rightarrow>
          (case probe w of
             Inl e \<Rightarrow> (Some (errMsg e), [])
           | Inr (si, raw) \<Rightarrow> (Some (sysInfoCollectedMsg si raw), []))
      | startVideoTestCmd \<Rightarrow> (Some startVideoTestMsg, [])
      | tea_Tick \<Rightarrow> (Some videoTestTimerTickMsg, [])
      | checkSerialCmd entered system \<Rightarrow> (Some (checkSerialNumberCmd entered system), [])
      | createLogCmd info raw tp sm \<Rightarrow>
          (Some (fst (createLogFilesCmd w info raw tp sm)),
           snd (createLogFilesCmd w info raw tp sm))
      | rebootCmd \<Rightarrow> (Some restartMsg, [exec_Run ''reboot''])
      | poweroffCmd \<Rightarrow> (Some shutdownMsg, [exec_Run ''poweroff''])
      | componentCmd \<Rightarrow> (map_option otherMsg (component w), []))"

text \<open>
  The program as the runtime sees it: the model, the commands that \<^verbatim>\<open>Update\<close> has
  returned and that have not finished yet, the commands that have run (in order), the
  effects so far, whether the loop has ended, and whether it ended with an error of the
  runtime itself (the \<^verbatim>\<open>err\<close> that \<^verbatim>\<open>p.Run()\<close> returns).
\<close>

record 'st config =
  mdl :: "'st model"
  pending :: "cmd list"
  history :: "cmd list"
  effects :: "effect list"
  finished :: bool
  runErr :: bool

text \<open>
  What can happen next: a key press, a resize, a mouse event, a pending command
  finishing (with the answers of the operating system), or the runtime failing. Commands run concurrently,
  so any pending command may be the next to finish. Every event comes with the reading
  of the clock at which it is handled.
\<close>

datatype event =
    Press string
  | Resize int int
  | Mouse nat
  | Complete cmd world
  | RuntimeError

text \<open>A \<^verbatim>\<open>nil\<close> command starts nothing; any other command joins the pending ones.\<close>

definition issue :: "cmd \<Rightarrow> cmd list" where
  "issue cm = (if cm = nil_cmd then [] else [cm])"

definition deliver ::
    "(int \<Rightarrow> msg \<Rightarrow> 'st model \<Rightarrow> 'st model \<times> cmd) \<Rightarrow> int \<Rightarrow> msg \<Rightarrow> 'st config \<Rightarrow> 'st config" where
  "deliver upd now msg c =
     c\<lparr>mdl := fst (upd now msg (mdl c)),
       pending := pending c @ issue (snd (upd now msg (mdl c)))\<rparr>"

definition complete ::
    "(int \<Rightarrow> msg \<Rightarrow> 'st model \<Rightarrow> 'st model \<times> cmd) \<Rightarrow> int \<Rightarrow> cmd \<Rightarrow> world \<Rightarrow> 'st config \<Rightarrow> 'st config" where
  "complete upd now cm w c =
     (if cm \<notin> set (pending c) then c
      else if cm = tea_Quit then
        c\<lparr>pending := remove1 cm (pending c), history := history c @ [cm], finished := True\<rparr>
      else
        (case fst (runCmd w cm) of
           None \<Rightarrow>
             c\<lparr>pending := remove1 cm (pending c), history := history c @ [cm],
               effects := effects c @ snd (runCmd w cm)\<rparr>
         | Some msg \<Rightarrow>
             deliver upd now msg
               (c\<lparr>pending := remove1 cm (pending c), history := history c @ [cm],
                  effects := effects c @ snd (runCmd w cm)\<rparr>)))"

definition step ::
    "(int \<Rightarrow> msg \<Rightarrow> 'st model \<Rightarrow> 'st model \<times> cmd) \<Rightarrow> 'st config \<Rightarrow> int \<times> event \<Rightarrow> 'st config" where
  "step upd c e =
     (if finished c then c
      else
        (case snd e of
           Press k \<Rightarrow> deliver upd (fst e) (KeyMsg k) c
         | Resize w h \<Rightarrow> deliver upd (fst e) (WindowSizeMsg w h) c
         | Mouse n \<Rightarrow> deliver upd (fst e) (otherMsg n) c
         | Complete cm w \<Rightarrow> complete upd (fst e) cm w c
         | RuntimeError \<Rightarrow> c\<lparr>finished := True, runErr := True\<rparr>))"

definition start :: "'st model \<Rightarrow> 'st config" where
  "start m = \<lparr>mdl = m, pending = Init, history = [], effects = [], finished = False, runErr = False\<rparr>"

definition run ::
    "(int \<Rightarrow> msg \<Rightarrow> 'st model \<Rightarrow> 'st model \<times> cmd) \<Rightarrow> 'st model \<Rightarrow> (int \<times> event) list \<Rightarrow> 'st config" where
  "run upd m evs = foldl (step upd) (start m) evs"

text \<open>
  \<^verbatim>\<open>main\<close> of the terminal variants: the exit code of the process, or \<open>None\<close> while the
  loop is still waiting for events. Without root it leaves with 1 before the program
  starts; after the loop it leaves with 1 if \<^verbatim>\<open>p.Run()\<close> returned an error and returns
  normally (exit code 0) otherwise. The final model that \<^verbatim>\<open>p.Run()\<close> returns is dropped
  by the source (\<^verbatim>\<open>_\<close>).
\<close>

definition main ::
    "(msg \<Rightarrow> string \<Rightarrow> string) \<Rightarrow> int \<Rightarrow> (int \<times> event) list \<Rightarrow> int option" where
  "main ti uid evs =
     (if uid \<noteq> 0 then Some 1
      else if \<not> finished (run (Update ti) initialModel evs) then None
      else if runErr (run (Update ti) initialModel evs) then Some 1
      else Some 0)"

section \<open>What holds in every reachable configuration of main.go's terminal variant\<close>

definition isCollect :: "cmd \<Rightarrow> bool" where
  "isCollect c = (c = collectSystemInfoCmd)"

definition isCheckSerial :: "cmd \<Rightarrow> bool" where
  "isCheckSerial c = (case c of checkSerialCmd e s \<Rightarrow> True | _ \<Rightarrow> False)"

definition isCreateLog :: "cmd \<Rightarrow> bool" where
  "isCreateLog c = (case c of createLogCmd i d t s \<Rightarrow> True | _ \<Rightarrow> False)"

definition isWriteFile :: "effect \<Rightarrow> bool" where
  "isWriteFile e = (case e of WriteFile p x \<Rightarrow> True | _ \<Rightarrow> False)"

definition logging :: "state \<Rightarrow> bool" where
  "logging s = (s = stateCreateLogs \<or> s = stateDone)"

definition activeOk :: "state model \<Rightarrow> bool" where
  "activeOk m = (videoTestActive m \<longrightarrow> state m = stateVideoTest)"

text \<open>
  The invariant of the runs: the display test is active only in its own state; the
  inventory is collected once and the state leaves \<^verbatim>\<open>stateInit\<close> only when that is done;
  a serial check is pending only in \<^verbatim>\<open>stateCheckSerial\<close>, once, and compares the last
  submission with the system serial; the log writer has been started at most once, and
  only the two last states have seen it; from the success screen on, the last submission
  is the system serial, and the flag \<^verbatim>\<open>serialMatched\<close> is set in these states only; the
  log writer got the model's data; every file written holds the text built from that
  data.
\<close>

definition inv :: "state config \<Rightarrow> bool" where
  "inv c =
     (activeOk (mdl c)
      \<and> length (filter isCollect (pending c)) \<le> 1
      \<and> (state (mdl c) \<noteq> stateInit \<longrightarrow> filter isCollect (pending c) = [])
      \<and> length (filter isCheckSerial (pending c)) \<le> 1
      \<and> (state (mdl c) \<noteq> stateCheckSerial \<longrightarrow> filter isCheckSerial (pending c) = [])
      \<and> length (filter isCreateLog (pending c)) + length (filter isCreateLog (history c)) \<le> 1
      \<and> (\<not> logging (state (mdl c)) \<longrightarrow>
            filter isCreateLog (pending c) = [] \<and> filter isCreateLog (history c) = [])
      \<and> (\<forall>e s. checkSerialCmd e s \<in> set (pending c) \<longrightarrow>
            e = userSerial (mdl c) \<and> s = SerialNumber (sysInfo (mdl c)))
      \<and> (state (mdl c) = stateSerialSuccess \<or> logging (state (mdl c)) \<longrightarrow>
            userSerial (mdl c) = SerialNumber (sysInfo (mdl c)) \<and> serialMatched (mdl c))
      \<and> (serialMatched (mdl c) \<longrightarrow>
            state (mdl c) = stateSerialSuccess \<or> logging (state (mdl c)))
      \<and> (\<forall>i d t s. createLogCmd i d t s \<in> set (pending c) \<union> set (history c) \<longrightarrow>
            i = sysInfo (mdl c) \<and> d = dmidecodeRaw (mdl c) \<and> t = testPassed (mdl c) \<and> s)
      \<and> (\<forall>p x. WriteFile p x \<in> set (effects c) \<longrightarrow>
            logging (state (mdl c))
            \<and> (\<exists>date. x = logContent date (sysInfo (mdl c)) (dmidecodeRaw (mdl c))
                            (testPassed (mdl c)) True))
      \<and> length (filter isWriteFile (effects c)) \<le> length (filter isCreateLog (history c)))"

text \<open>What the state must be for a message to arrive, given where messages come from.\<close>

definition mpre :: "state \<Rightarrow> msg \<Rightarrow> bool" where
  "mpre s msg =
     (case msg of
        sysInfoCollectedMsg si raw \<Rightarrow> s = stateInit
      | serialMatchedMsg \<Rightarrow> s = stateCheckSerial
      | serialMismatchMsg e x \<Rightarrow> s = stateCheckSerial
      | logCreatedMsg f \<Rightarrow> logging s
      | videoTestDoneMsg \<Rightarrow> False
      | _ \<Rightarrow> True)"

definition msgPre :: "state config \<Rightarrow> msg \<Rightarrow> bool" where
  "msgPre c msg =
     (mpre (state (mdl c)) msg
      \<and> (case msg of
            sysInfoCollectedMsg si raw \<Rightarrow> filter isCollect (pending c) = []
          | serialMatchedMsg \<Rightarrow>
              filter isCheckSerial (pending c) = []
              \<and> userSerial (mdl c) = SerialNumber (sysInfo (mdl c))
          | serialMismatchMsg e s \<Rightarrow>
              filter isCheckSerial (pending c) = [] \<and> e = userSerial (mdl c)
          | _ \<Rightarrow> True))"

section \<open>The windowed variant of main.go\<close>

text \<open>
  The first program of \<^verbatim>\<open>main.go\<close> keeps its data in the global \<^verbatim>\<open>sysInfo\<close> and moves
  from screen to screen by calling the next function. Of \<^verbatim>\<open>sysInfo\<close> the handlers read
  the serial number and write the test results; \<open>gui_logs\<close> records every call of
  \<^verbatim>\<open>createLogFile\<close> with the test results that it serialises into the file.
\<close>

record TestResults =
  DisplayTest :: bool
  SerialNumberVerified :: bool
  UserEnteredSN :: string

datatype gui_screen = DisplayTestScreen | SerialScreen | FinalScreen

record gui =
  gui_SerialNumber :: string
  gui_TestResults :: TestResults
  gui_screen :: gui_screen
  gui_dialogs :: nat
  gui_logs :: "TestResults list"

definition createLogFile :: "gui \<Rightarrow> gui" where
  "createLogFile g = g\<lparr>gui_logs := gui_logs g @ [gui_TestResults g]\<rparr>"

definition showFinalScreen :: "gui \<Rightarrow> gui" where
  "showFinalScreen g = g\<lparr>gui_screen := FinalScreen\<rparr>"

text \<open>
  \<^verbatim>\<open>checkSN\<close>, the closure of \<^verbatim>\<open>checkSerialNumber\<close> that the Enter key and the button
  run, with \<open>userSN\<close> the text of the entry field. Both branches go on to
  \<^verbatim>\<open>createLogFile\<close> and to the final screen; the mismatch branch shows a dialog first.
\<close>

definition checkSN :: "string \<Rightarrow> gui \<Rightarrow> gui" where
  "checkSN userSN g =
     (if userSN = gui_SerialNumber g then
        showFinalScreen (createLogFile
          (g\<lparr>gui_TestResults :=
               (gui_TestResults g)\<lparr>UserEnteredSN := userSN, SerialNumberVerified := True\<rparr>\<rparr>))
      else
        showFinalScreen (createLogFile
          (g\<lparr>gui_TestResults :=
               (gui_TestResults g)\<lparr>UserEnteredSN := userSN, SerialNumberVerified := False\<rparr>,
             gui_dialogs := gui_dialogs g + 1\<rparr>)))"

text \<open>
  The key handler that \<^verbatim>\<open>runDisplayTest\<close> installs; the key is its \<^verbatim>\<open>fyne.KeyName\<close>.
  Y and Return go on to the serial check, N starts the display test again, every other
  key is ignored.
\<close>

definition onTypedKey :: "string \<Rightarrow> gui \<Rightarrow> gui" where
  "onTypedKey key g =
     (if key = ''Y'' \<or> key = ''Return'' then
        g\<lparr>gui_TestResults := (gui_TestResults g)\<lparr>DisplayTest := True\<rparr>,
          gui_screen := SerialScreen\<rparr>
      else if key = ''N'' then g\<lparr>gui_screen := DisplayTestScreen\<rparr>
      else g)"

section \<open>Sample sessions\<close>

text \<open>
  A text input that appends every key of one character and ignores everything else, a
  machine with the serial SN-42, the answers of a healthy system and of two failing
  ones, and some sessions on them.
\<close>

definition appendTyped :: "msg \<Rightarrow> string \<Rightarrow> string" where
  "appendTyped msg v =
     (case msg of KeyMsg k \<Rightarrow> (if length k = 1 then v @ k else v) | _ \<Rightarrow> v)"

definition info42 :: SystemInfo where
  "info42 = emptySystemInfo\<lparr>SerialNumber := ''SN-42''\<rparr>"

definition raw42 :: string where
  "raw42 = ''Serial Number: SN-42''"

definition healthy :: world where
  "healthy =
     \<lparr>euid = 0, probe = Inr (info42, raw42), mkdirErr = None, writeErr = None,
      clock_stamp = ''20250101_120000'', clock_RFC1123 = ''Wed, 01 Jan 2025 12:00:00 UTC'',
      component = None\<rparr>"

definition later :: world where
  "later = healthy\<lparr>clock_stamp := ''20250101_120100'',
                    clock_RFC1123 := ''Wed, 01 Jan 2025 12:01:00 UTC''\<rparr>"

definition probeFails :: world where
  "probeFails = healthy\<lparr>probe := Inl ''dmidecode: command not found''\<rparr>"

definition diskFull :: world where
  "diskFull = healthy\<lparr>writeErr := Some ''no space left on device''\<rparr>"

definition sec :: "int \<Rightarrow> int" where
  "sec n = n * 1000000000"

text \<open>
  Inventory, Enter (the display test starts at second 1), its first timer, a tick at 7 s
  into the test.
\<close>

definition toHeldPattern :: "(int \<times> event) list" where
  "toHeldPattern =
     [(sec 0, Complete collectSystemInfoCmd healthy), (sec 1, Press ''enter''),
      (sec 1, Complete startVideoTestCmd healthy), (sec 8, Complete tea_Tick healthy)]"

definition toSerialEntry :: "(int \<times> event) list" where
  "toSerialEntry = toHeldPattern @ [(sec 9, Press ''x''), (sec 10, Press ''enter'')]"

definition typeSN42 :: "(int \<times> event) list" where
  "typeSN42 =
     [(sec 11, Press ''S''), (sec 11, Press ''N''), (sec 11, Press ''-''),
      (sec 11, Press ''4''), (sec 11, Press ''2'')]"

definition wrongSerial :: "(int \<times> event) list" where
  "wrongSerial =
     toSerialEntry
     @ [(sec 11, Press ''X''), (sec 11, Press ''enter''),
        (sec 11, Complete (checkSerialCmd ''X'' ''SN-42'') healthy)]"

definition retrySession :: "(int \<times> event) list" where
  "retrySession =
     wrongSerial @ [(sec 12, Press ''enter'')] @ typeSN42
     @ [(sec 13, Press ''enter''),
        (sec 13, Complete (checkSerialCmd ''SN-42'' ''SN-42'') healthy)]"

definition toSuccess :: "(int \<times> event) list" where
  "toSuccess =
     toSerialEntry @ typeSN42
     @ [(sec 13, Press ''enter''),
        (sec 13, Complete (checkSerialCmd ''SN-42'' ''SN-42'') healthy)]"

definition fullSession :: "(int \<times> event) list" where
  "fullSession =
     toSuccess
     @ [(sec 14, Press ''enter''),
        (sec 14, Complete (createLogCmd info42 raw42 True True) healthy),
        (sec 15, Press ''enter''), (sec 15, Complete tea_Quit healthy)]"

definition logFails :: "(int \<times> event) list" where
  "logFails =
     toSuccess
     @ [(sec 14, Press ''enter''),
        (sec 14, Complete (createLogCmd info42 raw42 True True) diskFull),
        (sec 14, Complete tea_Quit healthy)]"

definition inventoryFails :: "(int \<times> event) list" where
  "inventoryFails =
     [(sec 0, Complete collectSystemInfoCmd probeFails), (sec 0, Complete tea_Quit healthy)]"

text \<open>In \<^verbatim>\<open>part_001\<close>: a whole session, then \<^verbatim>\<open>b\<close> on the last screen and a second pass.\<close>

definition secondPass :: "(int \<times> event) list" where
  "secondPass =
     toSuccess
     @ [(sec 14, Press ''enter''),
        (sec 14, Complete (createLogCmd info42 raw42 True True) healthy),
        (sec 20, Press ''b''), (sec 21, Press ''enter''),
        (sec 21, Complete startVideoTestCmd healthy), (sec 25, Complete tea_Tick healthy),
        (sec 26, Press ''x''), (sec 27, Press ''enter''), (sec 28, Press ''enter''),
        (sec 28, Complete (checkSerialCmd ''SN-42'' ''SN-42'') healthy),
        (sec 29, Press ''enter''),
        (sec 74, Complete (createLogCmd info42 raw42 True True) later)]"

text \<open>In \<^verbatim>\<open>part_000\<close>: the display test with ticks at 7 s and at 8 s, and no key.\<close>

definition unattended :: "(int \<times> event) list" where
  "unattended = toHeldPattern @ [(sec 9, Complete tea_Tick healthy)]"

text \<open>A mismatch, then the Reboot key and the end of the \<^verbatim>\<open>reboot\<close> command.\<close>

definition rebootAfterMismatch :: "(int \<times> event) list" where
  "rebootAfterMismatch =
     wrongSerial @ [(sec 12, Press ''r''), (sec 13, Complete rebootCmd healthy)]"

definition gui42 :: gui where
  "gui42 =
     \<lparr>gui_SerialNumber = ''SN-42'',
      gui_TestResults = \<lparr>DisplayTest = True, SerialNumberVerified = False, UserEnteredSN = []\<rparr>,
      gui_screen = SerialScreen, gui_dialogs = 0, gui_logs = []\<rparr>"

text \<open>The same wrong submission in \<^verbatim>\<open>part_000\<close>, whose display test ends by itself.\<close>

definition wrongSerial_p0 :: "(int \<times> event) list" where
  "wrongSerial_p0 =
     unattended
     @ [(sec 10, Press ''enter''), (sec 11, Press ''X''), (sec 11, Press ''enter''),
        (sec 11, Complete (checkSerialCmd ''X'' ''SN-42'') healthy)]"

text \<open>A machine whose serial holds the letter q, and a session on it that presses q.\<close>

definition infoQ :: SystemInfo where
  "infoQ = emptySystemInfo\<lparr>SerialNumber := ''q7''\<rparr>"

definition healthyQ :: world where
  "healthyQ = healthy\<lparr>probe := Inr (infoQ, ''Serial Number: q7'')\<rparr>"

definition quitOnQ :: "(int \<times> event) list" where
  "quitOnQ =
     [(sec 0, Complete collectSystemInfoCmd healthyQ), (sec 1, Press ''enter''),
      (sec 1, Complete startVideoTestCmd healthyQ), (sec 8, Complete tea_Tick healthyQ),
      (sec 9, Press ''x''), (sec 10, Press ''enter''), (sec 11, Press ''q''),
      (sec 11, Complete tea_Quit healthyQ)]"

text \<open>
  Runes that arrive together reach the program as one key message, whose
  \<^verbatim>\<open>String()\<close> is their text. A text input that appends the runes of every key
  message, one rune or several, and here ignores the named keys; and a session on the
  same machine in which q and 7 arrive in one key message.
\<close>

definition namedKeys :: "string list" where
  "namedKeys = [''enter'', ''tab'', ''esc'', ''backspace'', ''delete'', ''up'', ''down'',
                ''left'', ''right'', ''home'', ''end'', ''ctrl+c'']"

definition appendRunes :: "msg \<Rightarrow> string \<Rightarrow> string" where
  "appendRunes msg v =
     (case msg of KeyMsg k \<Rightarrow> (if k \<in> set namedKeys then v else v @ k) | _ \<Rightarrow> v)"

definition pasteQ :: "(int \<times> event) list" where
  "pasteQ =
     [(sec 0, Complete collectSystemInfoCmd healthyQ), (sec 1, Press ''enter''),
      (sec 1, Complete startVideoTestCmd healthyQ), (sec 8, Complete tea_Tick healthyQ),
      (sec 9, Press ''x''), (sec 10, Press ''enter''), (sec 11, Press ''q7''),
      (sec 12, Press ''enter''),
      (sec 12, Complete (checkSerialCmd ''q7'' ''q7'') healthyQ),
      (sec 13, Press ''enter''),
      (sec 13, Complete (createLogCmd infoQ ''Serial Number: q7'' True True) healthyQ)]"

text \<open>
  In \<^verbatim>\<open>part_001\<close>: the matching serial is submitted, \<^verbatim>\<open>b\<close> leaves the check before its
  answer has come, a second pass submits SN-42x, and then the first answer arrives.
\<close>

definition lateAnswer :: "(int \<times> event) list" where
  "lateAnswer =
     toSerialEntry @ typeSN42
     @ [(sec 13, Press ''enter''), (sec 13, Press ''b''), (sec 14, Press ''enter''),
        (sec 14, Complete startVideoTestCmd healthy), (sec 18, Complete tea_Tick healthy),
        (sec 19, Press ''x''), (sec 20, Press ''enter''), (sec 21, Press ''x''),
        (sec 22, Press ''enter''),
        (sec 22, Complete (checkSerialCmd ''SN-42'' ''SN-42'') healthy),
        (sec 23, Press ''enter''),
        (sec 23, Complete (createLogCmd info42 raw42 True True) healthy)]"

section \<open>Predicates of the statements\<close>

text \<open>Neither the entry nor the submitted serial holds the letter q.\<close>

definition qfree :: "state config \<Rightarrow> bool" where
  "qfree c = (CHR ''q'' \<notin> set (textInput (mdl c)) \<and> CHR ''q'' \<notin> set (userSerial (mdl c)))"

text \<open>Every field of the inventory occurs in the text \<open>x\<close>.\<close>

definition mentionsInventory :: "SystemInfo \<Rightarrow> string \<Rightarrow> bool" where
  "mentionsInventory info x =
     (sublist (SerialNumber info) x
      \<and> sublist (Processor_Model (Processor info)) x
      \<and> sublist (Sprintf_d (Processor_Cores (Processor info))) x
      \<and> sublist (Sprintf_d (Processor_Threads (Processor info))) x
      \<and> sublist (Processor_Frequency (Processor info)) x
      \<and> list_all (\<lambda>e. sublist (fst e) x \<and> sublist (snd e) x) (Processor_Cache (Processor info))
      \<and> sublist (Memory_Total (Memory info)) x
      \<and> list_all (\<lambda>s. sublist (Slot_ID s) x \<and> sublist (Slot_Manufacturer s) x
                      \<and> sublist (Slot_Size s) x \<and> sublist (Slot_Speed s) x
                      \<and> sublist (Slot_Type s) x) (Memory_Slots (Memory info))
      \<and> list_all (\<lambda>n. sublist (Network_Interface n) x \<and> sublist (Network_Model n) x
                      \<and> sublist (Network_MAC n) x) (Network info)
      \<and> sublist (GPU_Model (GPU info)) x
      \<and> sublist (GPU_Memory (GPU info)) x
      \<and> sublist (GPU_Driver (GPU info)) x
      \<and> sublist (GPU_Vendor (GPU info)) x
      \<and> sublist (GPU_Architecture (GPU info)) x
      \<and> sublist (GPU_Resolution (GPU info)) x
      \<and> sublist (GPU_OpenGLVersion (GPU info)) x
      \<and> list_all (\<lambda>s. sublist (Storage_Type s) x \<and> sublist (Storage_Model s) x
                      \<and> sublist (Storage_Size s) x \<and> sublist (Storage_Label s) x)
           (Storage info))"

section \<open>Auxiliary facts\<close>

subsection \<open>Whole seconds and the colour formula\<close>

lemma sdiv_nonneg: "0 \<le> a \<Longrightarrow> 0 < b \<Longrightarrow> (a::int) sdiv b = a div b"
  by (simp add: signed_divide_int_def sgn_if)

lemma smod_nonneg: "0 \<le> a \<Longrightarrow> 0 < b \<Longrightarrow> (a::int) smod b = a mod b"
  by (simp add: signed_modulo_int_def sgn_if)

lemma elapsed_nonneg:
  "0 \<le> now - t0 \<Longrightarrow> elapsedSeconds now t0 = (now - t0) div 1000000000"
  by (simp add: elapsedSeconds_def sdiv_nonneg)

lemma color_formula3:
  assumes "0 \<le> (d::int)"
  shows "((d div 1000000000) sdiv 2) smod 3 = (d div 2000000000) mod 3"
proof -
  have a: "0 \<le> d div 1000000000" using assms by simp
  have b: "(d div 1000000000) div 2 = d div 2000000000"
    by (simp add: div_mult2_eq[symmetric])
  have c: "0 \<le> d div 2000000000" using assms by simp
  show ?thesis using a b c by (simp add: sdiv_nonneg smod_nonneg)
qed

lemma color_formula4:
  assumes "0 \<le> (d::int)"
  shows "((d div 1000000000) sdiv 2) smod 4 = (d div 2000000000) mod 4"
proof -
  have a: "0 \<le> d div 1000000000" using assms by simp
  have b: "(d div 1000000000) div 2 = d div 2000000000"
    by (simp add: div_mult2_eq[symmetric])
  have c: "0 \<le> d div 2000000000" using assms by simp
  show ?thesis using a b c by (simp add: sdiv_nonneg smod_nonneg)
qed

lemma secs_ge6: "(6 \<le> (d::int) div 1000000000) = (6000000000 \<le> d)"
  by arith

lemma secs_ge8: "(8 \<le> (d::int) div 1000000000) = (8000000000 \<le> d)"
  by arith

lemma onTick_early:
  assumes "videoTestActive m" "0 \<le> now - videoTestStart m" "videoTestColor m \<noteq> 3"
    "now - videoTestStart m < 6000000000"
  shows "onTick now m =
    (m\<lparr>videoTestColor := ((now - videoTestStart m) div 2000000000) mod 3\<rparr>, tea_Tick)"
  using assms by (simp add: onTick_def elapsed_nonneg secs_ge6 color_formula3)

lemma onTick_late:
  assumes "videoTestActive m" "0 \<le> now - videoTestStart m"
    "videoTestColor m = 3 \<or> 6000000000 \<le> now - videoTestStart m"
  shows "onTick now m = (m\<lparr>videoTestColor := 3\<rparr>, tea_Tick)"
  using assms by (auto simp: onTick_def elapsed_nonneg secs_ge6)

lemma held_other_messages:
  assumes "videoTestActive m" "videoTestColor m = 3" "\<forall>k. msg \<noteq> KeyMsg k" "msg \<noteq> videoTestDoneMsg"
  shows "videoTestActive (fst (Update ti now msg m)) \<and> videoTestColor (fst (Update ti now msg m)) = 3"
  using assms by (cases msg) (auto simp: Update_def onTick_def components_def split: state.splits)

lemma onTick_p0_early:
  assumes "videoTestActive m" "0 \<le> now - videoTestStart m" "now - videoTestStart m < 8000000000"
  shows "onTick_p0 now m =
    (m\<lparr>videoTestColor := ((now - videoTestStart m) div 2000000000) mod 4\<rparr>, tea_Tick)"
  using assms by (simp add: onTick_p0_def elapsed_nonneg secs_ge8 color_formula4)

lemma onTick_p0_late:
  assumes "videoTestActive m" "0 \<le> now - videoTestStart m" "8000000000 \<le> now - videoTestStart m"
  shows "onTick_p0 now m = (m\<lparr>videoTestActive := False, state := stateAskVideoOk_p0\<rparr>, nil_cmd)"
  using assms by (simp add: onTick_p0_def elapsed_nonneg secs_ge8)

subsection \<open>Single steps of Update\<close>

lemma Update_sets_matched:
  "serialMatched (fst (Update ti now msg m)) \<Longrightarrow> \<not> serialMatched m \<Longrightarrow> msg = serialMatchedMsg"
  by (cases msg)
     (auto simp: Update_def onKey_def onEnter_def onTick_def components_def
           split: state.splits if_splits)

lemma Update_p0_sets_matched:
  "serialMatched (fst (Update_p0 ti now msg m)) \<Longrightarrow> \<not> serialMatched m \<Longrightarrow> msg = serialMatchedMsg"
  by (cases msg)
     (auto simp: Update_p0_def onKey_p0_def onEnter_p0_def onTick_p0_def components_p0_def
           split: state_p0.splits if_splits)

lemma runCmd_matched:
  "fst (runCmd w c) = Some serialMatchedMsg \<Longrightarrow> \<exists>e. c = checkSerialCmd e e"
  by (cases c)
     (auto simp: runCmd_def checkSerialNumberCmd_def createLogFilesCmd_def
           split: if_splits sum.splits option.splits prod.splits)

lemma Update_power_msgs_no_quit:
  "msg = restartMsg \<or> msg = shutdownMsg \<Longrightarrow> snd (Update ti now msg m) \<noteq> tea_Quit"
  by (auto simp: Update_def components_def split: state.splits)

lemma Update_p0_power_msgs_no_quit:
  "msg = restartMsg \<or> msg = shutdownMsg \<Longrightarrow> snd (Update_p0 ti now msg m) \<noteq> tea_Quit"
  by (auto simp: Update_p0_def components_p0_def split: state_p0.splits)

lemmas Update_defs = Update_def onKey_def onEnter_def onTick_def components_def

lemma Update_activeOk:
  "activeOk m \<Longrightarrow> mpre (state m) msg \<Longrightarrow> activeOk (fst (Update ti now msg m))"
  by (cases msg)
     (auto simp: Update_defs activeOk_def mpre_def logging_def split: state.splits if_splits)

lemma Update_never_collects: "\<not> isCollect (snd (Update ti now msg m))"
  by (cases msg) (auto simp: Update_defs isCollect_def split: state.splits if_splits)

lemma Update_check_cmd:
  "activeOk m \<Longrightarrow> isCheckSerial (snd (Update ti now msg m)) \<Longrightarrow>
   state m = stateAskSerial \<and> state (fst (Update ti now msg m)) = stateCheckSerial
   \<and> snd (Update ti now msg m) =
       checkSerialCmd (userSerial (fst (Update ti now msg m)))
         (SerialNumber (sysInfo (fst (Update ti now msg m))))"
  by (cases msg; cases "state m")
     (simp_all add: Update_defs activeOk_def isCheckSerial_def split: if_splits)

lemma Update_log_cmd:
  "activeOk m \<Longrightarrow> isCreateLog (snd (Update ti now msg m)) \<Longrightarrow>
   msg = KeyMsg ''enter'' \<and> state m = stateSerialSuccess
   \<and> state (fst (Update ti now msg m)) = stateCreateLogs
   \<and> snd (Update ti now msg m) = createLogCmd (sysInfo m) (dmidecodeRaw m) (testPassed m) True"
  by (cases msg; cases "state m")
     (simp_all add: Update_defs activeOk_def isCreateLog_def split: if_splits)

lemma Update_leaves_init:
  "activeOk m \<Longrightarrow> mpre (state m) msg \<Longrightarrow> state m = stateInit \<Longrightarrow>
   state (fst (Update ti now msg m)) = stateInit \<or> (\<exists>si raw. msg = sysInfoCollectedMsg si raw)"
  by (cases msg)
     (auto simp: Update_defs activeOk_def mpre_def logging_def split: state.splits if_splits)

lemma Update_leaves_check:
  "activeOk m \<Longrightarrow> mpre (state m) msg \<Longrightarrow> state m = stateCheckSerial \<Longrightarrow>
   (state (fst (Update ti now msg m)) = stateCheckSerial
      \<and> userSerial (fst (Update ti now msg m)) = userSerial m
      \<and> sysInfo (fst (Update ti now msg m)) = sysInfo m)
   \<or> msg = serialMatchedMsg \<or> (\<exists>e s. msg = serialMismatchMsg e s)"
  by (cases msg)
     (auto simp: Update_defs activeOk_def mpre_def logging_def split: state.splits if_splits)

lemma Update_after_success:
  "activeOk m \<Longrightarrow> mpre (state m) msg \<Longrightarrow> state m = stateSerialSuccess \<or> logging (state m) \<Longrightarrow>
   userSerial (fst (Update ti now msg m)) = userSerial m
   \<and> sysInfo (fst (Update ti now msg m)) = sysInfo m
   \<and> serialMatched (fst (Update ti now msg m)) = serialMatched m
   \<and> dmidecodeRaw (fst (Update ti now msg m)) = dmidecodeRaw m
   \<and> testPassed (fst (Update ti now msg m)) = testPassed m
   \<and> (state (fst (Update ti now msg m)) = stateSerialSuccess
        \<or> logging (state (fst (Update ti now msg m))))
   \<and> (logging (state m) \<longrightarrow> logging (state (fst (Update ti now msg m))))"
  by (cases msg; cases "state m")
     (simp_all add: Update_defs activeOk_def mpre_def logging_def)

lemma Update_enters_success:
  "activeOk m \<Longrightarrow> mpre (state m) msg \<Longrightarrow>
   state (fst (Update ti now msg m)) = stateSerialSuccess
     \<or> logging (state (fst (Update ti now msg m))) \<Longrightarrow>
   state m = stateSerialSuccess \<or> logging (state m) \<or> msg = serialMatchedMsg"
  by (cases msg; cases "state m")
     (simp_all add: Update_defs activeOk_def mpre_def logging_def split: if_splits)

lemma Update_on_match:
  "fst (Update ti now serialMatchedMsg m) =
     m\<lparr>state := stateSerialSuccess, showOverlay := True, serialMatched := True\<rparr>"
  by (simp add: Update_def)

lemma filter_issue:
  "\<not> P nil_cmd \<Longrightarrow> filter P (issue cm) = (if P cm then [cm] else [])"
  by (simp add: issue_def)

lemma filter_nonempty: "x \<in> set xs \<Longrightarrow> P x \<Longrightarrow> filter P xs \<noteq> []"
  by (auto simp: filter_empty_conv)

lemma filter_remove1_single:
  "length (filter P xs) \<le> 1 \<Longrightarrow> x \<in> set xs \<Longrightarrow> P x \<Longrightarrow> filter P (remove1 x xs) = []"
proof -
  assume a: "length (filter P xs) \<le> 1" and b: "x \<in> set xs" and c: "P x"
  have "x \<in> set (filter P xs)" using b c by simp
  then have "length (remove1 x (filter P xs)) = length (filter P xs) - 1"
    by (simp add: length_remove1)
  then have "length (remove1 x (filter P xs)) = 0" using a by simp
  then show ?thesis by (simp add: filter_remove1)
qed

lemma filter_remove1_empty: "filter P xs = [] \<Longrightarrow> filter P (remove1 x xs) = []"
  by (simp add: filter_remove1)

lemma length_filter_remove1_le: "length (filter P (remove1 x xs)) \<le> length (filter P xs)"
  by (simp add: filter_remove1 length_remove1)

lemma length_filter_remove1_in:
  "x \<in> set xs \<Longrightarrow> P x \<Longrightarrow> length (filter P (remove1 x xs)) + 1 = length (filter P xs)"
proof -
  assume b: "x \<in> set xs" and c: "P x"
  have i: "x \<in> set (filter P xs)" using b c by simp
  then have "length (filter P xs) > 0" by (cases "filter P xs") auto
  then show ?thesis using i by (simp add: filter_remove1 length_remove1)
qed

subsection \<open>The invariant is kept by every event\<close>

lemma deliver_inv:
  assumes I: "inv c" and P: "msgPre c msg"
  shows "inv (deliver (Update ti) now msg c)"
proof -
  let ?m = "mdl c"
  let ?m' = "fst (Update ti now msg (mdl c))"
  let ?cm = "snd (Update ti now msg (mdl c))"
  let ?pd = "pending c @ issue ?cm"
  have A: "activeOk ?m" using I by (simp add: inv_def)
  have M: "mpre (state ?m) msg" using P by (simp add: msgPre_def)
  have nn: "\<not> isCollect nil_cmd" "\<not> isCheckSerial nil_cmd" "\<not> isCreateLog nil_cmd"
    by (simp_all add: isCollect_def isCheckSerial_def isCreateLog_def)
  have i2: "length (filter isCollect (pending c)) \<le> 1" using I by (simp add: inv_def)
  have i3: "state ?m \<noteq> stateInit \<Longrightarrow> filter isCollect (pending c) = []"
    using I by (simp add: inv_def)
  have i4: "length (filter isCheckSerial (pending c)) \<le> 1" using I by (simp add: inv_def)
  have i5: "state ?m \<noteq> stateCheckSerial \<Longrightarrow> filter isCheckSerial (pending c) = []"
    using I by (simp add: inv_def)
  have i6: "length (filter isCreateLog (pending c)) + length (filter isCreateLog (history c)) \<le> 1"
    using I by (simp add: inv_def)
  have i7: "\<not> logging (state ?m) \<Longrightarrow>
      filter isCreateLog (pending c) = [] \<and> filter isCreateLog (history c) = []"
    using I by (simp add: inv_def)
  have i8: "\<And>e s. checkSerialCmd e s \<in> set (pending c) \<Longrightarrow>
      e = userSerial ?m \<and> s = SerialNumber (sysInfo ?m)"
    using I by (simp add: inv_def)
  have i9: "state ?m = stateSerialSuccess \<or> logging (state ?m) \<Longrightarrow>
      userSerial ?m = SerialNumber (sysInfo ?m) \<and> serialMatched ?m"
    using I by (simp add: inv_def)
  have i9b: "serialMatched ?m \<longrightarrow> state ?m = stateSerialSuccess \<or> logging (state ?m)"
    using I by (simp add: inv_def)
  have i10: "\<And>i d t s. createLogCmd i d t s \<in> set (pending c) \<union> set (history c) \<Longrightarrow>
      i = sysInfo ?m \<and> d = dmidecodeRaw ?m \<and> t = testPassed ?m \<and> s"
    using I unfolding inv_def by blast
  have i11: "\<And>p x. WriteFile p x \<in> set (effects c) \<Longrightarrow>
      logging (state ?m)
      \<and> (\<exists>date. x = logContent date (sysInfo ?m) (dmidecodeRaw ?m) (testPassed ?m) True)"
    using I unfolding inv_def by blast
  have i12: "length (filter isWriteFile (effects c)) \<le> length (filter isCreateLog (history c))"
    using I by (simp add: inv_def)

  have c1: "activeOk ?m'" using Update_activeOk[OF A M] .
  have fc: "filter isCollect (issue ?cm) = []"
    using Update_never_collects[of ti now msg ?m] by (simp add: filter_issue nn)
  have c2: "length (filter isCollect ?pd) \<le> 1" using i2 fc by simp
  have c3: "state ?m' \<noteq> stateInit \<longrightarrow> filter isCollect ?pd = []"
  proof
    assume s: "state ?m' \<noteq> stateInit"
    have "filter isCollect (pending c) = []"
    proof (cases "state ?m = stateInit")
      case True
      with Update_leaves_init[OF A M True] s obtain si raw where "msg = sysInfoCollectedMsg si raw"
        by blast
      with P show ?thesis by (simp add: msgPre_def)
    next
      case False
      then show ?thesis using i3 by simp
    qed
    with fc show "filter isCollect ?pd = []" by simp
  qed
  have c4: "length (filter isCheckSerial ?pd) \<le> 1"
  proof (cases "isCheckSerial ?cm")
    case True
    with Update_check_cmd[OF A True] have "state ?m \<noteq> stateCheckSerial" by simp
    with i5 have "filter isCheckSerial (pending c) = []" by simp
    then show ?thesis by (simp add: filter_issue nn)
  next
    case False
    then show ?thesis using i4 by (simp add: filter_issue nn)
  qed
  have c5: "state ?m' \<noteq> stateCheckSerial \<longrightarrow> filter isCheckSerial ?pd = []"
  proof
    assume s: "state ?m' \<noteq> stateCheckSerial"
    have n: "\<not> isCheckSerial ?cm" using Update_check_cmd[OF A] s by blast
    have "filter isCheckSerial (pending c) = []"
    proof (cases "state ?m = stateCheckSerial")
      case True
      with Update_leaves_check[OF A M True] s
      have "msg = serialMatchedMsg \<or> (\<exists>e s. msg = serialMismatchMsg e s)" by blast
      with P show ?thesis by (auto simp: msgPre_def)
    next
      case False
      then show ?thesis using i5 by simp
    qed
    with n show "filter isCheckSerial ?pd = []" by (simp add: filter_issue nn)
  qed
  have c6: "length (filter isCreateLog ?pd) + length (filter isCreateLog (history c)) \<le> 1"
  proof (cases "isCreateLog ?cm")
    case True
    with Update_log_cmd[OF A True] have "\<not> logging (state ?m)" by (simp add: logging_def)
    with i7 show ?thesis by (simp add: filter_issue nn)
  next
    case False
    then show ?thesis using i6 by (simp add: filter_issue nn)
  qed
  have c7: "\<not> logging (state ?m') \<longrightarrow>
      filter isCreateLog ?pd = [] \<and> filter isCreateLog (history c) = []"
  proof
    assume s: "\<not> logging (state ?m')"
    have n: "\<not> isCreateLog ?cm" using Update_log_cmd[OF A] s by (auto simp: logging_def)
    have "\<not> logging (state ?m)" using Update_after_success[OF A M] s by blast
    with i7 n show "filter isCreateLog ?pd = [] \<and> filter isCreateLog (history c) = []"
      by (simp add: filter_issue nn)
  qed
  have c8: "\<forall>e s. checkSerialCmd e s \<in> set ?pd \<longrightarrow>
      e = userSerial ?m' \<and> s = SerialNumber (sysInfo ?m')"
  proof (intro allI impI)
    fix e s assume "checkSerialCmd e s \<in> set ?pd"
    then consider (old) "checkSerialCmd e s \<in> set (pending c)" | (new) "?cm = checkSerialCmd e s"
      by (auto simp: issue_def split: if_splits)
    then show "e = userSerial ?m' \<and> s = SerialNumber (sysInfo ?m')"
    proof cases
      case old
      then have ne: "filter isCheckSerial (pending c) \<noteq> []"
        by (rule filter_nonempty) (simp add: isCheckSerial_def)
      with i5 have st: "state ?m = stateCheckSerial" by blast
      from Update_leaves_check[where ti=ti and now=now, OF A M st] show ?thesis
      proof (elim disjE)
        assume "state ?m' = stateCheckSerial \<and> userSerial ?m' = userSerial ?m
            \<and> sysInfo ?m' = sysInfo ?m"
        with i8[OF old] show ?thesis by simp
      next
        assume "msg = serialMatchedMsg"
        with P ne show ?thesis by (simp add: msgPre_def)
      next
        assume "\<exists>e s. msg = serialMismatchMsg e s"
        with P ne show ?thesis by (auto simp: msgPre_def)
      qed
    next
      case new
      then have "isCheckSerial ?cm" by (simp add: isCheckSerial_def)
      from Update_check_cmd[OF A this] new show ?thesis by simp
    qed
  qed
  have c9: "state ?m' = stateSerialSuccess \<or> logging (state ?m') \<longrightarrow>
      userSerial ?m' = SerialNumber (sysInfo ?m') \<and> serialMatched ?m'"
  proof
    assume s: "state ?m' = stateSerialSuccess \<or> logging (state ?m')"
    from Update_enters_success[where ti=ti and now=now, OF A M s]
    show "userSerial ?m' = SerialNumber (sysInfo ?m') \<and> serialMatched ?m'"
    proof (elim disjE)
      assume a: "state ?m = stateSerialSuccess"
      then show ?thesis using Update_after_success[OF A M] i9 by simp
    next
      assume a: "logging (state ?m)"
      then show ?thesis using Update_after_success[OF A M] i9 by simp
    next
      assume a: "msg = serialMatchedMsg"
      with P have "userSerial ?m = SerialNumber (sysInfo ?m)" by (simp add: msgPre_def)
      then show ?thesis using a by (simp add: Update_on_match)
    qed
  qed
  have c9b: "serialMatched ?m' \<longrightarrow> state ?m' = stateSerialSuccess \<or> logging (state ?m')"
  proof
    assume s: "serialMatched ?m'"
    show "state ?m' = stateSerialSuccess \<or> logging (state ?m')"
    proof (cases "serialMatched ?m")
      case True
      with i9b have "state ?m = stateSerialSuccess \<or> logging (state ?m)" by simp
      with Update_after_success[OF A M] show ?thesis by simp
    next
      case False
      with Update_sets_matched[OF s False] have "msg = serialMatchedMsg" by simp
      then show ?thesis by (simp add: Update_on_match)
    qed
  qed
  have c10: "\<forall>i d t s. createLogCmd i d t s \<in> set ?pd \<union> set (history c) \<longrightarrow>
      i = sysInfo ?m' \<and> d = dmidecodeRaw ?m' \<and> t = testPassed ?m' \<and> s"
  proof (intro allI impI)
    fix i d t s assume "createLogCmd i d t s \<in> set ?pd \<union> set (history c)"
    then consider (old) "createLogCmd i d t s \<in> set (pending c) \<union> set (history c)"
      | (new) "?cm = createLogCmd i d t s"
      by (auto simp: issue_def split: if_splits)
    then show "i = sysInfo ?m' \<and> d = dmidecodeRaw ?m' \<and> t = testPassed ?m' \<and> s"
    proof cases
      case old
      then have "filter isCreateLog (pending c) \<noteq> [] \<or> filter isCreateLog (history c) \<noteq> []"
        using filter_nonempty[of "createLogCmd i d t s" _ isCreateLog]
        by (auto simp: isCreateLog_def)
      with i7 have "logging (state ?m)" by blast
      with Update_after_success[OF A M] i10[OF old] show ?thesis by simp
    next
      case new
      then have l: "isCreateLog ?cm" by (simp add: isCreateLog_def)
      from Update_log_cmd[OF A l] have st: "state ?m = stateSerialSuccess" by blast
      from Update_log_cmd[OF A l]
      have eq: "?cm = createLogCmd (sysInfo ?m) (dmidecodeRaw ?m) (testPassed ?m) True"
        by blast
      from eq new have "i = sysInfo ?m \<and> d = dmidecodeRaw ?m \<and> t = testPassed ?m \<and> s" by simp
      with Update_after_success[OF A M] st show ?thesis by simp
    qed
  qed
  have c11: "\<forall>p x. WriteFile p x \<in> set (effects c) \<longrightarrow>
      logging (state ?m')
      \<and> (\<exists>date. x = logContent date (sysInfo ?m') (dmidecodeRaw ?m') (testPassed ?m') True)"
  proof (intro allI impI)
    fix p x assume w: "WriteFile p x \<in> set (effects c)"
    from i11[OF w] have l: "logging (state ?m)"
      and ex: "\<exists>date. x = logContent date (sysInfo ?m) (dmidecodeRaw ?m) (testPassed ?m) True"
      by simp_all
    from Update_after_success[OF A M] l ex
    show "logging (state ?m')
      \<and> (\<exists>date. x = logContent date (sysInfo ?m') (dmidecodeRaw ?m') (testPassed ?m') True)"
      by simp
  qed
  show ?thesis
    unfolding inv_def deliver_def
    using c1 c2 c3 c4 c5 c6 c7 c8 c9 c9b c10 c11 i12 by (simp, blast)
qed

lemma runCmd_WriteFile:
  "WriteFile p x \<in> set (snd (runCmd w cm)) \<Longrightarrow>
   \<exists>i d t s. cm = createLogCmd i d t s \<and> x = logContent (clock_RFC1123 w) i d t s"
  by (cases cm) (auto simp: runCmd_def createLogFilesCmd_def split: option.splits sum.splits if_splits)

lemma runCmd_WriteFile_count:
  "length (filter isWriteFile (snd (runCmd w cm))) \<le> (if isCreateLog cm then 1 else 0)"
  by (cases cm)
     (auto simp: runCmd_def createLogFilesCmd_def isWriteFile_def isCreateLog_def
           split: option.splits sum.splits if_splits)

lemma runCmd_msg:
  "fst (runCmd w cm) = Some msg \<Longrightarrow>
     (case msg of
        sysInfoCollectedMsg si raw \<Rightarrow> cm = collectSystemInfoCmd
      | serialMatchedMsg \<Rightarrow> (\<exists>e. cm = checkSerialCmd e e)
      | serialMismatchMsg e s \<Rightarrow> cm = checkSerialCmd e s
      | logCreatedMsg f \<Rightarrow> isCreateLog cm
      | videoTestDoneMsg \<Rightarrow> False
      | _ \<Rightarrow> True)"
  by (cases cm)
     (auto simp: runCmd_def createLogFilesCmd_def checkSerialNumberCmd_def isCreateLog_def
           split: option.splits sum.splits if_splits)

lemma removed_inv:
  assumes I: "inv c" and mem: "cm \<in> set (pending c)"
  shows "inv (c\<lparr>pending := remove1 cm (pending c), history := history c @ [cm],
                effects := effects c @ snd (runCmd w cm)\<rparr>)"
proof -
  let ?m = "mdl c"
  let ?pd = "remove1 cm (pending c)"
  let ?h = "history c @ [cm]"
  let ?fx = "effects c @ snd (runCmd w cm)"
  have A: "activeOk ?m" using I by (simp add: inv_def)
  have i2: "length (filter isCollect (pending c)) \<le> 1" using I by (simp add: inv_def)
  have i3: "state ?m \<noteq> stateInit \<longrightarrow> filter isCollect (pending c) = []"
    using I by (simp add: inv_def)
  have i4: "length (filter isCheckSerial (pending c)) \<le> 1" using I by (simp add: inv_def)
  have i5: "state ?m \<noteq> stateCheckSerial \<longrightarrow> filter isCheckSerial (pending c) = []"
    using I by (simp add: inv_def)
  have i6: "length (filter isCreateLog (pending c)) + length (filter isCreateLog (history c)) \<le> 1"
    using I by (simp add: inv_def)
  have i7: "\<not> logging (state ?m) \<Longrightarrow>
      filter isCreateLog (pending c) = [] \<and> filter isCreateLog (history c) = []"
    using I by (simp add: inv_def)
  have i8: "\<And>e s. checkSerialCmd e s \<in> set (pending c) \<Longrightarrow>
      e = userSerial ?m \<and> s = SerialNumber (sysInfo ?m)"
    using I by (simp add: inv_def)
  have i9: "state ?m = stateSerialSuccess \<or> logging (state ?m) \<longrightarrow>
      userSerial ?m = SerialNumber (sysInfo ?m) \<and> serialMatched ?m"
    using I by (simp add: inv_def)
  have i9b: "serialMatched ?m \<longrightarrow> state ?m = stateSerialSuccess \<or> logging (state ?m)"
    using I by (simp add: inv_def)
  have i10: "\<And>i d t s. createLogCmd i d t s \<in> set (pending c) \<union> set (history c) \<Longrightarrow>
      i = sysInfo ?m \<and> d = dmidecodeRaw ?m \<and> t = testPassed ?m \<and> s"
    using I unfolding inv_def by blast
  have i11: "\<And>p x. WriteFile p x \<in> set (effects c) \<Longrightarrow>
      logging (state ?m)
      \<and> (\<exists>date. x = logContent date (sysInfo ?m) (dmidecodeRaw ?m) (testPassed ?m) True)"
    using I unfolding inv_def by blast
  have i12: "length (filter isWriteFile (effects c)) \<le> length (filter isCreateLog (history c))"
    using I by (simp add: inv_def)

  have c2: "length (filter isCollect ?pd) \<le> 1"
    using i2 length_filter_remove1_le[of isCollect cm "pending c"] by simp
  have c3: "state ?m \<noteq> stateInit \<longrightarrow> filter isCollect ?pd = []"
    using i3 by (simp add: filter_remove1_empty)
  have c4: "length (filter isCheckSerial ?pd) \<le> 1"
    using i4 length_filter_remove1_le[of isCheckSerial cm "pending c"] by simp
  have c5: "state ?m \<noteq> stateCheckSerial \<longrightarrow> filter isCheckSerial ?pd = []"
    using i5 by (simp add: filter_remove1_empty)
  have c6: "length (filter isCreateLog ?pd) + length (filter isCreateLog ?h) \<le> 1"
  proof (cases "isCreateLog cm")
    case True
    from length_filter_remove1_in[of cm "pending c" isCreateLog, OF mem True] i6
    have "length (filter isCreateLog ?pd) = 0 \<and> length (filter isCreateLog (history c)) = 0"
      by arith
    then show ?thesis using True by simp
  next
    case False
    with i6 length_filter_remove1_le[of isCreateLog cm "pending c"] show ?thesis by simp
  qed
  have c7: "\<not> logging (state ?m) \<longrightarrow> filter isCreateLog ?pd = [] \<and> filter isCreateLog ?h = []"
  proof
    assume s: "\<not> logging (state ?m)"
    with i7 have e: "filter isCreateLog (pending c) = []" "filter isCreateLog (history c) = []"
      by simp_all
    have "\<not> isCreateLog cm" using e(1) mem by (auto simp: filter_empty_conv)
    with e show "filter isCreateLog ?pd = [] \<and> filter isCreateLog ?h = []"
      by (simp add: filter_remove1_empty)
  qed
  have c8: "\<forall>e s. checkSerialCmd e s \<in> set ?pd \<longrightarrow>
      e = userSerial ?m \<and> s = SerialNumber (sysInfo ?m)"
    using i8 by (meson notin_set_remove1)
  have sub: "set ?pd \<union> set ?h \<subseteq> set (pending c) \<union> set (history c)"
    using mem set_remove1_subset[of cm "pending c"] by auto
  have c10: "\<forall>i d t s. createLogCmd i d t s \<in> set ?pd \<union> set ?h \<longrightarrow>
      i = sysInfo ?m \<and> d = dmidecodeRaw ?m \<and> t = testPassed ?m \<and> s"
    using i10 sub by blast
  have c11: "\<forall>p x. WriteFile p x \<in> set ?fx \<longrightarrow>
      logging (state ?m)
      \<and> (\<exists>date. x = logContent date (sysInfo ?m) (dmidecodeRaw ?m) (testPassed ?m) True)"
  proof (intro allI impI)
    fix p x assume "WriteFile p x \<in> set ?fx"
    then consider (old) "WriteFile p x \<in> set (effects c)"
      | (new) "WriteFile p x \<in> set (snd (runCmd w cm))" by auto
    then show "logging (state ?m)
      \<and> (\<exists>date. x = logContent date (sysInfo ?m) (dmidecodeRaw ?m) (testPassed ?m) True)"
    proof cases
      case old
      then show ?thesis using i11 by simp
    next
      case new
      from runCmd_WriteFile[OF new] obtain i d t s where
        cm: "cm = createLogCmd i d t s" and x: "x = logContent (clock_RFC1123 w) i d t s"
        by blast
      from cm mem have in_p: "createLogCmd i d t s \<in> set (pending c) \<union> set (history c)" by simp
      from i10[OF in_p] have eq: "i = sysInfo ?m" "d = dmidecodeRaw ?m" "t = testPassed ?m" "s"
        by simp_all
      have "filter isCreateLog (pending c) \<noteq> []"
        using mem cm filter_nonempty[of cm "pending c" isCreateLog] by (simp add: isCreateLog_def)
      with i7 have "logging (state ?m)" by blast
      with x eq show ?thesis by auto
    qed
  qed
  have c12: "length (filter isWriteFile ?fx) \<le> length (filter isCreateLog ?h)"
    using i12 runCmd_WriteFile_count[of w cm] by (simp split: if_splits)
  show ?thesis
    unfolding inv_def
    using A c2 c3 c4 c5 c6 c7 c8 i9 i9b c10 c11 c12 by (simp, blast)
qed

lemma removed_msgPre:
  assumes I: "inv c" and mem: "cm \<in> set (pending c)" and r: "fst (runCmd w cm) = Some msg"
  shows "msgPre (c\<lparr>pending := remove1 cm (pending c), history := history c @ [cm],
                   effects := effects c @ snd (runCmd w cm)\<rparr>) msg"
proof -
  let ?m = "mdl c"
  have i2: "length (filter isCollect (pending c)) \<le> 1" using I by (simp add: inv_def)
  have i3: "state ?m \<noteq> stateInit \<Longrightarrow> filter isCollect (pending c) = []"
    using I by (simp add: inv_def)
  have i4: "length (filter isCheckSerial (pending c)) \<le> 1" using I by (simp add: inv_def)
  have i5: "state ?m \<noteq> stateCheckSerial \<Longrightarrow> filter isCheckSerial (pending c) = []"
    using I by (simp add: inv_def)
  have i7: "\<not> logging (state ?m) \<Longrightarrow> filter isCreateLog (pending c) = []"
    using I by (simp add: inv_def)
  have i8: "\<And>e s. checkSerialCmd e s \<in> set (pending c) \<Longrightarrow>
      e = userSerial ?m \<and> s = SerialNumber (sysInfo ?m)"
    using I by (simp add: inv_def)
  note k = runCmd_msg[OF r]
  show ?thesis
  proof (cases msg)
    case (sysInfoCollectedMsg si raw)
    with k have cm: "cm = collectSystemInfoCmd" by simp
    then have ic: "isCollect cm" by (simp add: isCollect_def)
    have "filter isCollect (pending c) \<noteq> []" using mem ic by (rule filter_nonempty)
    with i3 have st: "state ?m = stateInit" by blast
    from filter_remove1_single[OF i2 mem ic] st sysInfoCollectedMsg show ?thesis
      by (simp add: msgPre_def mpre_def)
  next
    case serialMatchedMsg
    with k obtain e where cm: "cm = checkSerialCmd e e" by auto
    then have ic: "isCheckSerial cm" by (simp add: isCheckSerial_def)
    have "filter isCheckSerial (pending c) \<noteq> []" using mem ic by (rule filter_nonempty)
    with i5 have st: "state ?m = stateCheckSerial" by blast
    from mem cm have "checkSerialCmd e e \<in> set (pending c)" by simp
    from i8[OF this] have "userSerial ?m = SerialNumber (sysInfo ?m)" by auto
    with filter_remove1_single[OF i4 mem ic] st serialMatchedMsg show ?thesis
      by (simp add: msgPre_def mpre_def)
  next
    case (serialMismatchMsg e s)
    with k have cm: "cm = checkSerialCmd e s" by simp
    then have ic: "isCheckSerial cm" by (simp add: isCheckSerial_def)
    have "filter isCheckSerial (pending c) \<noteq> []" using mem ic by (rule filter_nonempty)
    with i5 have st: "state ?m = stateCheckSerial" by blast
    from mem cm have "checkSerialCmd e s \<in> set (pending c)" by simp
    from i8[OF this] have "e = userSerial ?m" by auto
    with filter_remove1_single[OF i4 mem ic] st serialMismatchMsg show ?thesis
      by (simp add: msgPre_def mpre_def)
  next
    case (logCreatedMsg f)
    with k have ic: "isCreateLog cm" by simp
    have "filter isCreateLog (pending c) \<noteq> []" using mem ic by (rule filter_nonempty)
    with i7 have "logging (state ?m)" by blast
    with logCreatedMsg show ?thesis by (simp add: msgPre_def mpre_def)
  next
    case videoTestDoneMsg
    with k show ?thesis by simp
  qed (simp_all add: msgPre_def mpre_def)
qed

lemma inv_flags: "inv (c\<lparr>finished := a\<rparr>) = inv c" "inv (c\<lparr>finished := a, runErr := b\<rparr>) = inv c"
  by (simp_all add: inv_def)

lemma complete_inv:
  assumes I: "inv c"
  shows "inv (complete (Update ti) now cm w c)"
proof (cases "cm \<in> set (pending c)")
  case False
  then show ?thesis using I by (simp add: complete_def)
next
  case True
  note R = removed_inv[OF I True, of w]
  show ?thesis
  proof (cases "cm = tea_Quit")
    case q: True
    have e: "c\<lparr>pending := remove1 cm (pending c), history := history c @ [cm],
                 finished := True\<rparr>
          = (c\<lparr>pending := remove1 cm (pending c), history := history c @ [cm],
                 effects := effects c @ snd (runCmd w cm)\<rparr>)\<lparr>finished := True\<rparr>"
      using q by (simp add: runCmd_def)
    have "inv (c\<lparr>pending := remove1 cm (pending c), history := history c @ [cm],
                 finished := True\<rparr>)"
      unfolding e using R by (simp only: inv_flags)
    then show ?thesis using True q by (simp add: complete_def)
  next
    case nq: False
    show ?thesis
    proof (cases "fst (runCmd w cm)")
      case None
      then show ?thesis using True nq R by (simp add: complete_def)
    next
      case (Some msg)
      from deliver_inv[OF R removed_msgPre[OF I True Some]] Some True nq
      show ?thesis by (simp add: complete_def)
    qed
  qed
qed

lemma key_msgPre: "msgPre c (KeyMsg k)" "msgPre c (WindowSizeMsg a b)" "msgPre c (otherMsg n)"
  by (simp_all add: msgPre_def mpre_def)

lemma step_inv:
  assumes I: "inv c"
  shows "inv (step (Update ti) c e)"
proof (cases "finished c")
  case True
  then show ?thesis using I by (simp add: step_def)
next
  case False
  show ?thesis
  proof (cases "snd e")
    case (Press k)
    then show ?thesis using False deliver_inv[OF I key_msgPre(1)] by (simp add: step_def)
  next
    case (Resize a b)
    then show ?thesis using False deliver_inv[OF I key_msgPre(2)] by (simp add: step_def)
  next
    case (Mouse n)
    then show ?thesis using False deliver_inv[OF I key_msgPre(3)] by (simp add: step_def)
  next
    case (Complete cm w)
    then show ?thesis using False complete_inv[OF I] by (simp add: step_def)
  next
    case RuntimeError
    then show ?thesis using False I by (simp add: step_def inv_flags)
  qed
qed

lemma foldl_step_inv: "inv c \<Longrightarrow> inv (foldl (step (Update ti)) c evs)"
  by (induction evs arbitrary: c) (simp_all add: step_inv)

lemma inv_start: "inv (start initialModel)"
  by (simp add: inv_def start_def Init_def initialModel_def initialModelOf_def isCollect_def
      isCheckSerial_def isCreateLog_def logging_def activeOk_def)

lemma run_inv: "inv (run (Update ti) initialModel evs)"
  unfolding run_def by (rule foldl_step_inv[OF inv_start])

subsection \<open>Evaluating the sample sessions\<close>

lemmas session_defs =
  run_def start_def Init_def step_def complete_def deliver_def issue_def runCmd_def
  initialModel_def initialModel_p0_def initialModelOf_def emptySystemInfo_def
  appendTyped_def checkSerialNumberCmd_def elapsedSeconds_def createLogFilesCmd_def
  info42_def raw42_def healthy_def later_def probeFails_def diskFull_def sec_def
  toHeldPattern_def toSerialEntry_def typeSN42_def wrongSerial_def retrySession_def
  toSuccess_def fullSession_def logFails_def inventoryFails_def secondPass_def
  unattended_def rebootAfterMismatch_def wrongSerial_p0_def

lemmas Update_p0_defs = Update_p0_def onKey_p0_def onEnter_p0_def onTick_p0_def components_p0_def

lemmas Update_p1_defs = Update_p1_def onKey_p1_def onTick_p1_def Update_defs

subsection \<open>The log writer in the runs of main.go\<close>

lemma cmd_is_createLog:
  "isCreateLog (snd (Update ti now msg m)) \<Longrightarrow>
   msg = KeyMsg ''enter'' \<and> state m = stateSerialSuccess
   \<and> state (fst (Update ti now msg m)) = stateCreateLogs"
  by (cases msg; cases "state m")
     (simp_all add: Update_defs isCreateLog_def split: if_splits)

lemma cmd_is_createLog_p1:
  "isCreateLog (snd (Update_p1 ti now msg m)) \<Longrightarrow>
   msg = KeyMsg ''enter'' \<and> state m = stateSerialSuccess"
  by (cases msg; cases "state m")
     (simp_all add: Update_p1_defs isCreateLog_def split: if_splits)

lemma cmd_is_createLog_p0:
  "isCreateLog (snd (Update_p0 ti now msg m)) \<Longrightarrow> msg = serialMatchedMsg"
  by (cases msg; cases "state m")
     (simp_all add: Update_p0_defs isCreateLog_def split: if_splits)

lemma run_log_once:
  "length (filter isCreateLog (pending (run (Update ti) initialModel evs)
      @ history (run (Update ti) initialModel evs))) \<le> 1"
  using run_inv[of ti evs] by (simp add: inv_def)

lemma run_write_once:
  "length (filter isWriteFile (effects (run (Update ti) initialModel evs))) \<le> 1"
proof -
  let ?c = "run (Update ti) initialModel evs"
  have "length (filter isWriteFile (effects ?c)) \<le> length (filter isCreateLog (history ?c))"
    using run_inv[of ti evs] by (simp add: inv_def)
  also have "\<dots> \<le> 1" using run_inv[of ti evs] by (simp add: inv_def)
  finally show ?thesis .
qed

lemma run_log_needs_match:
  assumes "filter isCreateLog (pending (run (Update ti) initialModel evs)
      @ history (run (Update ti) initialModel evs)) \<noteq> []"
  shows "userSerial (mdl (run (Update ti) initialModel evs))
       = SerialNumber (sysInfo (mdl (run (Update ti) initialModel evs)))
     \<and> serialMatched (mdl (run (Update ti) initialModel evs))"
proof -
  let ?c = "run (Update ti) initialModel evs"
  have I: "inv ?c" by (rule run_inv)
  have "logging (state (mdl ?c))"
  proof (rule ccontr)
    assume "\<not> logging (state (mdl ?c))"
    with I have "filter isCreateLog (pending ?c) = [] \<and> filter isCreateLog (history ?c) = []"
      by (simp add: inv_def)
    with assms show False by simp
  qed
  with I show ?thesis by (simp add: inv_def)
qed

lemma fullSession_history:
  "history (run (Update appendTyped) initialModel fullSession) =
     [collectSystemInfoCmd, startVideoTestCmd, tea_Tick, checkSerialCmd ''SN-42'' ''SN-42'',
      createLogCmd info42 raw42 True True, tea_Quit]"
  by (simp add: session_defs Update_defs)

lemma secondPass_history:
  "filter isCreateLog (history (run (Update_p1 appendTyped) initialModel secondPass)) =
     [createLogCmd info42 raw42 True True, createLogCmd info42 raw42 True True]"
  by (simp add: session_defs Update_p1_defs isCreateLog_def)

lemma secondPass_effects:
  "map (\<lambda>e. case e of WriteFile p x \<Rightarrow> p | _ \<Rightarrow> [])
      (filter isWriteFile (effects (run (Update_p1 appendTyped) initialModel secondPass))) =
     [''./troubadour_logs/troubadour_SN-42_20250101_120000.log'',
      ''./troubadour_logs/troubadour_SN-42_20250101_120100.log'']"
  by (simp add: session_defs Update_p1_defs isWriteFile_def logsDir_def logFileName_def)

subsection \<open>Errors of the runtime\<close>

lemma step_runErr: "runErr (step upd c e) \<Longrightarrow> runErr c \<or> snd e = RuntimeError"
  by (cases "snd e")
     (auto simp: step_def complete_def deliver_def split: if_splits option.splits)

lemma foldl_runErr:
  "runErr (foldl (step upd) c evs) \<Longrightarrow> runErr c \<or> (\<exists>t. (t, RuntimeError) \<in> set evs)"
proof (induction evs arbitrary: c)
  case Nil
  then show ?case by simp
next
  case (Cons e evs)
  from Cons.IH[of "step upd c e"] Cons.prems
  have "runErr (step upd c e) \<or> (\<exists>t. (t, RuntimeError) \<in> set evs)" by simp
  then show ?case
  proof
    assume "runErr (step upd c e)"
    from step_runErr[OF this] show ?thesis
    proof
      assume "runErr c" then show ?thesis by simp
    next
      assume "snd e = RuntimeError"
      then have "e = (fst e, RuntimeError)" by (cases e) simp
      then have "(fst e, RuntimeError) \<in> set (e # evs)" by simp
      then show ?thesis by blast
    qed
  next
    assume "\<exists>t. (t, RuntimeError) \<in> set evs"
    then show ?thesis by auto
  qed
qed

lemma run_runErr:
  "runErr (run upd m evs) \<Longrightarrow> \<exists>t. (t, RuntimeError) \<in> set evs"
  using foldl_runErr[of upd "start m" evs] by (simp add: run_def start_def)

subsection \<open>The letter q and the text input\<close>

lemma Update_keeps_q_out:
  assumes T: "\<And>x v. x \<noteq> KeyMsg ''q'' \<Longrightarrow> CHR ''q'' \<notin> set v \<Longrightarrow> CHR ''q'' \<notin> set (ti x v)"
    and Q: "CHR ''q'' \<notin> set (textInput m)"
  shows "CHR ''q'' \<notin> set (textInput (fst (Update ti now msg m)))"
proof -
  have t: "\<And>x. x \<noteq> KeyMsg ''q'' \<Longrightarrow> CHR ''q'' \<notin> set (ti x (textInput m))"
    using T Q by simp
  show ?thesis
  proof (cases msg)
    case (KeyMsg k)
    show ?thesis
    proof (cases "k = ''q''")
      case True
      then show ?thesis using KeyMsg Q by (simp add: Update_def onKey_def)
    next
      case False
      then have "KeyMsg k \<noteq> KeyMsg ''q''" by simp
      from t[OF this] t[of "KeyMsg ''enter''"] Q KeyMsg show ?thesis
        by (cases "state m") (simp_all add: Update_defs)
    qed
  next
    case (WindowSizeMsg a b)
    with t[of msg] Q show ?thesis by (cases "state m") (simp_all add: Update_defs)
  next
    case restartMsg
    with t[of msg] Q show ?thesis by (cases "state m") (simp_all add: Update_defs)
  next
    case shutdownMsg
    with t[of msg] Q show ?thesis by (cases "state m") (simp_all add: Update_defs)
  next
    case (otherMsg n)
    with t[of msg] Q show ?thesis by (cases "state m") (simp_all add: Update_defs)
  qed (use Q in \<open>simp_all add: Update_defs\<close>)
qed

lemma Update_userSerial_from:
  "userSerial (fst (Update ti now msg m)) = userSerial m
   \<or> userSerial (fst (Update ti now msg m)) = textInput m
   \<or> (\<exists>e s. msg = serialMismatchMsg e s \<and> userSerial (fst (Update ti now msg m)) = e)"
  by (cases msg; cases "state m") (simp_all add: Update_defs)

lemma deliver_qfree:
  assumes T: "\<And>x v. x \<noteq> KeyMsg ''q'' \<Longrightarrow> CHR ''q'' \<notin> set v \<Longrightarrow> CHR ''q'' \<notin> set (ti x v)"
    and Q: "qfree c" and P: "msgPre c msg"
  shows "qfree (deliver (Update ti) now msg c)"
proof -
  let ?m = "mdl c"
  have a: "CHR ''q'' \<notin> set (textInput (fst (Update ti now msg ?m)))"
    using Update_keeps_q_out[of ti ?m now msg] T Q by (simp add: qfree_def)
  have mm: "\<And>e s. msg = serialMismatchMsg e s \<Longrightarrow> e = userSerial ?m"
    using P by (simp add: msgPre_def)
  have b: "CHR ''q'' \<notin> set (userSerial (fst (Update ti now msg ?m)))"
    using Update_userSerial_from[of ti now msg ?m] Q mm by (auto simp: qfree_def)
  show ?thesis using a b by (simp add: qfree_def deliver_def)
qed

lemma step_qfree:
  assumes T: "\<And>x v. x \<noteq> KeyMsg ''q'' \<Longrightarrow> CHR ''q'' \<notin> set v \<Longrightarrow> CHR ''q'' \<notin> set (ti x v)"
    and I: "inv c" and Q: "qfree c"
  shows "qfree (step (Update ti) c e)"
proof (cases "finished c")
  case True
  then show ?thesis using Q by (simp add: step_def)
next
  case False
  show ?thesis
  proof (cases "snd e")
    case (Press k)
    then show ?thesis using False deliver_qfree[OF T Q key_msgPre(1)] by (simp add: step_def)
  next
    case (Resize a b)
    then show ?thesis using False deliver_qfree[OF T Q key_msgPre(2)] by (simp add: step_def)
  next
    case (Mouse n)
    then show ?thesis using False deliver_qfree[OF T Q key_msgPre(3)] by (simp add: step_def)
  next
    case (Complete cm w)
    have "qfree (complete (Update ti) now cm w c)" for now
    proof (cases "cm \<in> set (pending c) \<and> cm \<noteq> tea_Quit")
      case no: False
      then show ?thesis using Q by (auto simp: complete_def qfree_def)
    next
      case yes: True
      let ?c1 = "c\<lparr>pending := remove1 cm (pending c), history := history c @ [cm],
                    effects := effects c @ snd (runCmd w cm)\<rparr>"
      have q1: "qfree ?c1" using Q by (simp add: qfree_def)
      show ?thesis
      proof (cases "fst (runCmd w cm)")
        case None
        then show ?thesis using yes q1 by (simp add: complete_def)
      next
        case (Some msg)
        from yes have mem: "cm \<in> set (pending c)" by simp
        from deliver_qfree[OF T q1 removed_msgPre[OF I mem Some]] Some yes
        show ?thesis by (simp add: complete_def)
      qed
    qed
    then show ?thesis using False Complete by (simp add: step_def)
  next
    case RuntimeError
    then show ?thesis using False Q by (simp add: step_def qfree_def)
  qed
qed

lemma run_snoc: "run upd m (evs @ [e]) = step upd (run upd m evs) e"
  by (simp add: run_def)

lemma run_qfree:
  assumes T: "\<And>x v. x \<noteq> KeyMsg ''q'' \<Longrightarrow> CHR ''q'' \<notin> set v \<Longrightarrow> CHR ''q'' \<notin> set (ti x v)"
  shows "qfree (run (Update ti) initialModel evs)"
proof (induction evs rule: rev_induct)
  case Nil
  show ?case
    by (simp add: run_def start_def qfree_def initialModel_def initialModelOf_def)
next
  case (snoc e evs)
  show ?case
    unfolding run_snoc by (rule step_qfree[OF T run_inv snoc.IH])
qed

lemma q_enters_otherwise:
  assumes "\<not> qfree (run (Update ti) initialModel evs)"
  shows "\<exists>msg v. msg \<noteq> KeyMsg ''q'' \<and> CHR ''q'' \<notin> set v \<and> CHR ''q'' \<in> set (ti msg v)"
proof (rule ccontr)
  assume "\<not> ?thesis"
  then have "\<And>x v. x \<noteq> KeyMsg ''q'' \<Longrightarrow> CHR ''q'' \<notin> set v \<Longrightarrow> CHR ''q'' \<notin> set (ti x v)"
    by blast
  from run_qfree[of ti evs, OF this] assms show False by simp
qed

lemma match_needs_q_entered:
  assumes q: "CHR ''q'' \<in> set (SerialNumber (sysInfo (mdl (run (Update ti) initialModel evs))))"
    and r: "serialMatched (mdl (run (Update ti) initialModel evs))
            \<or> state (mdl (run (Update ti) initialModel evs)) = stateSerialSuccess
            \<or> logging (state (mdl (run (Update ti) initialModel evs)))
            \<or> filter isWriteFile (effects (run (Update ti) initialModel evs)) \<noteq> []"
  shows "\<not> qfree (run (Update ti) initialModel evs)"
proof
  let ?c = "run (Update ti) initialModel evs"
  assume "qfree ?c"
  then have u: "CHR ''q'' \<notin> set (userSerial (mdl ?c))" by (simp add: qfree_def)
  have I: "inv ?c" by (rule run_inv)
  from u q have ne: "userSerial (mdl ?c) \<noteq> SerialNumber (sysInfo (mdl ?c))" by auto
  with I have s: "state (mdl ?c) \<noteq> stateSerialSuccess \<and> \<not> logging (state (mdl ?c))"
    unfolding inv_def by blast
  with I have m: "\<not> serialMatched (mdl ?c)" unfolding inv_def by blast
  from s I have "filter isCreateLog (history ?c) = []" unfolding inv_def by blast
  moreover from I have "length (filter isWriteFile (effects ?c))
      \<le> length (filter isCreateLog (history ?c))" unfolding inv_def by blast
  ultimately have "filter isWriteFile (effects ?c) = []" by simp
  with s m r show False by simp
qed

lemma pasteQ_run:
  "SerialNumber (sysInfo (mdl (run (Update appendRunes) initialModel pasteQ))) = ''q7''"
  "userSerial (mdl (run (Update appendRunes) initialModel pasteQ)) = ''q7''"
  "serialMatched (mdl (run (Update appendRunes) initialModel pasteQ))"
  "state (mdl (run (Update appendRunes) initialModel pasteQ)) = stateDone"
  "length (filter isWriteFile (effects (run (Update appendRunes) initialModel pasteQ))) = 1"
  by (simp_all add: session_defs Update_defs pasteQ_def healthyQ_def infoQ_def
        appendRunes_def namedKeys_def isWriteFile_def logsDir_def)

subsection \<open>What the text of the log holds\<close>

lemma sub_here: "sublist xs (xs @ ss)"
  by (rule sublist_append_rightI)

lemma sub_skip: "sublist xs ys \<Longrightarrow> sublist xs (ps @ ys)"
  by (auto simp: sublist_def) (metis append.assoc)

lemma sub_last: "sublist xs xs"
  by simp

lemma sub_here3: "sublist (a @ b @ c) (a @ b @ c @ ss)"
  using sublist_append_rightI[of "a @ b @ c" ss] by simp

lemma sub_trans: "sublist xs ys \<Longrightarrow> sublist ys zs \<Longrightarrow> sublist xs zs"
  by (rule sublist_order.order_trans)

lemma sub_concat_map: "x \<in> set xs \<Longrightarrow> sublist (f x) (concat (map f xs))"
proof -
  assume "x \<in> set xs"
  then obtain ys zs where "xs = ys @ x # zs" by (meson split_list)
  then have "concat (map f xs) = concat (map f ys) @ f x @ concat (map f zs)" by simp
  then show ?thesis by (metis sublist_appendI)
qed

lemma sub_optional: "sublist v (logOptional label v)"
  unfolding logOptional_def by (cases "v = []") (simp_all add: sub_skip sub_here)

lemma block_header: "sublist (logHeader date info) (logContent date info raw passed matched)"
  unfolding logContent_def by (rule sub_here)

lemma block_processor:
  "sublist (logProcessor (Processor info)) (logContent date info raw passed matched)"
  unfolding logContent_def by (rule sub_here | rule sub_skip)+

lemma block_memory:
  "sublist (logMemory (Memory info)) (logContent date info raw passed matched)"
  unfolding logContent_def by (rule sub_here | rule sub_skip)+

lemma block_network:
  "sublist (logNetwork (Network info)) (logContent date info raw passed matched)"
  unfolding logContent_def by (rule sub_here | rule sub_skip)+

lemma block_gpu:
  "sublist (logGPU (GPU info)) (logContent date info raw passed matched)"
  unfolding logContent_def by (rule sub_here | rule sub_skip)+

lemma block_storage:
  "sublist (logStorage (Storage info)) (logContent date info raw passed matched)"
  unfolding logContent_def by (rule sub_here | rule sub_skip)+

lemma block_results:
  "sublist (logTestResults info passed matched) (logContent date info raw passed matched)"
  unfolding logContent_def by (rule sub_here | rule sub_skip)+

lemma content_raw:
  "suffix (''==== RAW DMIDECODE DATA ====\<newline>'' @ raw) (logContent date info raw passed matched)"
  unfolding logContent_def suffix_def by (metis append.assoc)

lemma content_date:
  "sublist (''Date: '' @ date @ ''\<newline>'') (logContent date info raw passed matched)"
proof -
  have "sublist (''Date: '' @ date @ ''\<newline>'') (logHeader date info)"
    unfolding logHeader_def by (rule sub_here3 | rule sub_skip)+
  then show ?thesis by (rule sub_trans[OF _ block_header])
qed

lemma content_passed:
  "sublist (''Video Test Passed: '' @ Sprintf_t passed @ ''\<newline>'')
     (logContent date info raw passed matched)"
proof -
  have "sublist (''Video Test Passed: '' @ Sprintf_t passed @ ''\<newline>'')
      (logTestResults info passed matched)"
    unfolding logTestResults_def by (rule sub_here3 | rule sub_skip)+
  then show ?thesis by (rule sub_trans[OF _ block_results])
qed

lemma content_matched:
  "sublist (''Serial Number Check: '' @ Sprintf_t matched @ ''\<newline>'')
     (logContent date info raw passed matched)"
proof -
  have "sublist (''Serial Number Check: '' @ Sprintf_t matched @ ''\<newline>'')
      (logTestResults info passed matched)"
    unfolding logTestResults_def by (rule sub_here3 | rule sub_skip)+
  then show ?thesis by (rule sub_trans[OF _ block_results])
qed

lemma content_entered:
  "sublist (''Entered Serial Number: '' @ SerialNumber info @ ''\<newline>'')
     (logContent date info raw passed matched)"
proof -
  have "sublist (''Entered Serial Number: '' @ SerialNumber info @ ''\<newline>'')
      (logTestResults info passed matched)"
    unfolding logTestResults_def by (rule sub_here3 | rule sub_skip)+
  then show ?thesis by (rule sub_trans[OF _ block_results])
qed

lemma fields_header: "sublist (SerialNumber info) (logHeader date info)"
  unfolding logHeader_def by (rule sub_here | rule sub_skip)+

lemma fields_processor:
  "sublist (Processor_Model p) (logProcessor p)"
  "sublist (Sprintf_d (Processor_Cores p)) (logProcessor p)"
  "sublist (Sprintf_d (Processor_Threads p)) (logProcessor p)"
  "sublist (Processor_Frequency p) (logProcessor p)"
  "sublist (concat (map logCacheLine (Processor_Cache p))) (logProcessor p)"
  unfolding logProcessor_def by ((rule sub_here | rule sub_skip)+)+

lemma fields_cache: "sublist (fst e) (logCacheLine e)" "sublist (snd e) (logCacheLine e)"
  unfolding logCacheLine_def by ((rule sub_here | rule sub_skip)+)+

lemma fields_memory:
  "sublist (Memory_Total mem) (logMemory mem)"
  "sublist (concat (map logSlotLine (Memory_Slots mem))) (logMemory mem)"
  unfolding logMemory_def by ((rule sub_here | rule sub_skip)+)+

lemma fields_slot:
  "sublist (Slot_ID s) (logSlotLine s)"
  "sublist (Slot_Manufacturer s) (logSlotLine s)"
  "sublist (Slot_Size s) (logSlotLine s)"
  "sublist (Slot_Speed s) (logSlotLine s)"
  "sublist (Slot_Type s) (logSlotLine s)"
  unfolding logSlotLine_def by ((rule sub_here | rule sub_skip)+)+

lemma fields_network:
  "sublist (concat (map logNetLines nets)) (logNetwork nets)"
  unfolding logNetwork_def by (rule sub_last | rule sub_here | rule sub_skip)+

lemma fields_net:
  "sublist (Network_Interface n) (logNetLines n)"
  "sublist (Network_Model n) (logNetLines n)"
  "sublist (Network_MAC n) (logNetLines n)"
  unfolding logNetLines_def by ((rule sub_here | rule sub_skip)+)+

lemma fields_gpu:
  "sublist (GPU_Model g) (logGPU g)"
  "sublist (logOptional ''Memory: '' (GPU_Memory g)) (logGPU g)"
  "sublist (logOptional ''Driver: '' (GPU_Driver g)) (logGPU g)"
  "sublist (logOptional ''Vendor: '' (GPU_Vendor g)) (logGPU g)"
  "sublist (logOptional ''Architecture: '' (GPU_Architecture g)) (logGPU g)"
  "sublist (logOptional ''Resolution: '' (GPU_Resolution g)) (logGPU g)"
  "sublist (logOptional ''OpenGL Version: '' (GPU_OpenGLVersion g)) (logGPU g)"
  unfolding logGPU_def by ((rule sub_here | rule sub_skip)+)+

lemma fields_storages:
  "sublist (concat (map logStorageLines sts)) (logStorage sts)"
  unfolding logStorage_def by (rule sub_last | rule sub_here | rule sub_skip)+

lemma fields_storage:
  "sublist (Storage_Type s) (logStorageLines s)"
  "sublist (Storage_Model s) (logStorageLines s)"
  "sublist (Storage_Size s) (logStorageLines s)"
  "sublist (logOptional ''Label: '' (Storage_Label s)) (logStorageLines s)"
  unfolding logStorageLines_def by ((rule sub_here | rule sub_skip)+)+

lemma content_inventory: "mentionsInventory info (logContent date info raw passed matched)"
proof -
  let ?x = "logContent date info raw passed matched"
  note P = sub_trans[OF _ block_processor[of info date raw passed matched]]
  note M = sub_trans[OF _ block_memory[of info date raw passed matched]]
  note N = sub_trans[OF _ block_network[of info date raw passed matched]]
  note G = sub_trans[OF _ block_gpu[of info date raw passed matched]]
  note S = sub_trans[OF _ block_storage[of info date raw passed matched]]
  have cache: "e \<in> set (Processor_Cache (Processor info)) \<Longrightarrow>
      sublist (fst e) ?x \<and> sublist (snd e) ?x" for e
    using sub_trans[OF fields_cache(1) sub_concat_map[of e _ logCacheLine]]
      sub_trans[OF fields_cache(2) sub_concat_map[of e _ logCacheLine]]
      fields_processor(5)[of "Processor info"] P
    by (meson sub_trans)
  have slot: "s \<in> set (Memory_Slots (Memory info)) \<Longrightarrow>
      sublist (Slot_ID s) ?x \<and> sublist (Slot_Manufacturer s) ?x \<and> sublist (Slot_Size s) ?x
      \<and> sublist (Slot_Speed s) ?x \<and> sublist (Slot_Type s) ?x" for s
    using fields_slot[of s] sub_concat_map[of s _ logSlotLine]
      fields_memory(2)[of "Memory info"] M
    by (meson sub_trans)
  have net: "n \<in> set (Network info) \<Longrightarrow>
      sublist (Network_Interface n) ?x \<and> sublist (Network_Model n) ?x
      \<and> sublist (Network_MAC n) ?x" for n
    using fields_net[of n] sub_concat_map[of n _ logNetLines] fields_network[of "Network info"] N
    by (meson sub_trans)
  have sto: "s \<in> set (Storage info) \<Longrightarrow>
      sublist (Storage_Type s) ?x \<and> sublist (Storage_Model s) ?x
      \<and> sublist (Storage_Size s) ?x \<and> sublist (Storage_Label s) ?x" for s
    using fields_storage[of s] sub_optional[of "Storage_Label s" "''Label: ''"]
      sub_concat_map[of s _ logStorageLines] fields_storages[of "Storage info"] S
    by (meson sub_trans)
  have gpu: "sublist (GPU_Model (GPU info)) ?x" "sublist (GPU_Memory (GPU info)) ?x"
    "sublist (GPU_Driver (GPU info)) ?x" "sublist (GPU_Vendor (GPU info)) ?x"
    "sublist (GPU_Architecture (GPU info)) ?x" "sublist (GPU_Resolution (GPU info)) ?x"
    "sublist (GPU_OpenGLVersion (GPU info)) ?x"
    using fields_gpu[of "GPU info"] sub_optional G by (meson sub_trans)+
  have cpu: "sublist (Processor_Model (Processor info)) ?x"
    "sublist (Sprintf_d (Processor_Cores (Processor info))) ?x"
    "sublist (Sprintf_d (Processor_Threads (Processor info))) ?x"
    "sublist (Processor_Frequency (Processor info)) ?x"
    using fields_processor[of "Processor info"] P by blast+
  have mem: "sublist (Memory_Total (Memory info)) ?x"
    using fields_memory(1)[of "Memory info"] M by blast
  have sn: "sublist (SerialNumber info) ?x"
    using sub_trans[OF fields_header block_header] .
  show ?thesis
    unfolding mentionsInventory_def list_all_iff
    using sn cpu cache mem slot net gpu sto by blast
qed

lemma lateAnswer_effects:
  "effects (run (Update_p1 appendTyped) initialModel lateAnswer) =
     [MkdirAll logsDir,
      WriteFile ''./troubadour_logs/troubadour_SN-42_20250101_120000.log''
        (logContent ''Wed, 01 Jan 2025 12:00:00 UTC'' info42 raw42 True True)]"
  by (simp add: session_defs Update_p1_defs lateAnswer_def logFileName_def logsDir_def)

lemma lateAnswer_model:
  "userSerial (mdl (run (Update_p1 appendTyped) initialModel lateAnswer)) = ''SN-42x''"
  "textInput (mdl (run (Update_p1 appendTyped) initialModel lateAnswer)) = ''SN-42x''"
  "state (mdl (run (Update_p1 appendTyped) initialModel lateAnswer)) = stateDone"
  "SerialNumber (sysInfo (mdl (run (Update_p1 appendTyped) initialModel lateAnswer))) = ''SN-42''"
  by (simp_all add: session_defs Update_p1_defs lateAnswer_def)

lemma lateAnswer_before:
  "userSerial (mdl (run (Update_p1 appendTyped) initialModel (take 21 lateAnswer))) = ''SN-42x''"
  "state (mdl (run (Update_p1 appendTyped) initialModel (take 21 lateAnswer))) = stateSerialSuccess"
  "isCreateLog (snd (Update_p1 appendTyped (sec 23) (KeyMsg ''enter'')
      (mdl (run (Update_p1 appendTyped) initialModel (take 21 lateAnswer)))))"
  by (simp_all add: session_defs Update_p1_defs lateAnswer_def isCreateLog_def)

lemma content42:
  "logContent ''Wed, 01 Jan 2025 12:00:00 UTC'' info42 raw42 True True =
   ''==== TROUBADOUR SYSTEM DIAGNOSTICS LOG ====\<newline>\<newline>Date: Wed, 01 Jan 2025 12:00:00 UTC\<newline>Serial Number: SN-42\<newline>\<newline>==== PROCESSOR ====\<newline>Model: \<newline>Cores: 0 (Threads: 0)\<newline>Frequency: \<newline>Cache:\<newline>\<newline>==== MEMORY ====\<newline>Total: \<newline>\<newline>==== NETWORK ====\<newline>==== GPU ====\<newline>Model: \<newline>\<newline>==== STORAGE ====\<newline>==== TEST RESULTS ====\<newline>Video Test Passed: true\<newline>Serial Number Check: true\<newline>Entered Serial Number: SN-42\<newline>System Serial Number: SN-42\<newline>\<newline>==== RAW DMIDECODE DATA ====\<newline>Serial Number: SN-42''"
  by (simp add: logContent_def logHeader_def logProcessor_def logMemory_def logNetwork_def
      logGPU_def logStorage_def logTestResults_def logOptional_def info42_def raw42_def
      emptySystemInfo_def Sprintf_d_def Sprintf_t_def)

lemma no_x: "CHR ''x'' \<notin> set (logContent ''Wed, 01 Jan 2025 12:00:00 UTC'' info42 raw42 True True)"
  unfolding content42 by simp

lemma not_sub: "\<not> sublist ''SN-42x'' (logContent ''Wed, 01 Jan 2025 12:00:00 UTC'' info42 raw42 True True)"
proof
  assume "sublist ''SN-42x'' (logContent ''Wed, 01 Jan 2025 12:00:00 UTC'' info42 raw42 True True)"
  then have "set ''SN-42x'' \<subseteq> set (logContent ''Wed, 01 Jan 2025 12:00:00 UTC'' info42 raw42 True True)"
    by (rule set_mono_sublist)
  then have "CHR ''x'' \<in> set (logContent ''Wed, 01 Jan 2025 12:00:00 UTC'' info42 raw42 True True)"
    by auto
  with no_x show False by simp
qed

section \<open>C1: when the log writer runs\<close>

text \<open>
  C1, as amended. In every run of the terminal variant of \<^verbatim>\<open>main.go\<close>, whatever the
  order in which commands finish, the log writer is started at most once and at most one
  log file is written; a run in which it has been started has a last submission equal
  to the system serial. \<^verbatim>\<open>Update\<close> returns the log command only for Enter in
  \<^verbatim>\<open>stateSerialSuccess\<close>, moving to \<^verbatim>\<open>stateCreateLogs\<close>, and a reported mismatch starts no
  command in any of the three terminal variants. In \<^verbatim>\<open>part_001\<close> too only Enter on the
  success screen starts the log writer; in \<^verbatim>\<open>part_000\<close>, which has no success screen, the
  match message itself does. The claim as stated, for every variant, fails: see the
  counterexample below.
\<close>

theorem C1_log_writer_once_after_success:
  "length (filter isCreateLog (pending (run (Update ti) initialModel evs)
      @ history (run (Update ti) initialModel evs))) \<le> 1
   \<and> length (filter isWriteFile (effects (run (Update ti) initialModel evs))) \<le> 1
   \<and> (filter isCreateLog (pending (run (Update ti) initialModel evs)
         @ history (run (Update ti) initialModel evs)) \<noteq> [] \<longrightarrow>
       userSerial (mdl (run (Update ti) initialModel evs))
         = SerialNumber (sysInfo (mdl (run (Update ti) initialModel evs)))
       \<and> serialMatched (mdl (run (Update ti) initialModel evs)))
   \<and> (isCreateLog (snd (Update ti now msg m)) \<longrightarrow>
       msg = KeyMsg ''enter'' \<and> state m = stateSerialSuccess
       \<and> state (fst (Update ti now msg m)) = stateCreateLogs)
   \<and> Update ti now (serialMismatchMsg e s) m =
       (m\<lparr>state := stateSerialError, userSerial := e, showOverlay := True,
          serialMatched := False\<rparr>, nil_cmd)
   \<and> snd (Update_p1 ti now (serialMismatchMsg e s) m) = nil_cmd
   \<and> snd (Update_p0 ti now (serialMismatchMsg e s) m0) = nil_cmd
   \<and> (isCreateLog (snd (Update_p1 ti now msg m)) \<longrightarrow>
       msg = KeyMsg ''enter'' \<and> state m = stateSerialSuccess)
   \<and> (isCreateLog (snd (Update_p0 ti now msg m0)) \<longrightarrow> msg = serialMatchedMsg)"
  using run_log_once[of ti evs] run_write_once[of ti evs] run_log_needs_match[of ti evs]
    cmd_is_createLog[of ti now msg m] cmd_is_createLog_p1[of ti now msg m]
    cmd_is_createLog_p0[of ti now msg m0]
  by (simp add: Update_def Update_p1_def Update_p0_def)

theorem C1_witness:
  "filter isCreateLog (pending (run (Update appendTyped) initialModel fullSession)
      @ history (run (Update appendTyped) initialModel fullSession)) \<noteq> []
   \<and> userSerial (mdl (run (Update appendTyped) initialModel fullSession))
       = SerialNumber (sysInfo (mdl (run (Update appendTyped) initialModel fullSession)))
   \<and> isCreateLog (snd (Update appendTyped 0 (KeyMsg ''enter'')
        (initialModel\<lparr>state := stateSerialSuccess\<rparr>)))
   \<and> state (fst (Update appendTyped 0 (KeyMsg ''enter'')
        (initialModel\<lparr>state := stateSerialSuccess\<rparr>))) = stateCreateLogs"
proof -
  have h: "filter isCreateLog (pending (run (Update appendTyped) initialModel fullSession)
      @ history (run (Update appendTyped) initialModel fullSession)) \<noteq> []"
    by (simp add: fullSession_history isCreateLog_def)
  have k: "isCreateLog (snd (Update appendTyped 0 (KeyMsg ''enter'')
        (initialModel\<lparr>state := stateSerialSuccess\<rparr>)))"
    by (simp add: Update_defs isCreateLog_def initialModel_def initialModelOf_def)
  show ?thesis
    using h k C1_log_writer_once_after_success[of appendTyped fullSession 0 "KeyMsg ''enter''"
        "initialModel\<lparr>state := stateSerialSuccess\<rparr>"]
    by simp
qed

text \<open>
  In \<^verbatim>\<open>part_001\<close> the key \<^verbatim>\<open>b\<close> leads from the last screen back to the inventory, and a
  second pass through the wizard runs the log writer a second time and writes a second
  file. In the windowed variant a wrong serial is followed by \<^verbatim>\<open>createLogFile\<close> all the
  same, with the failed verification in the record.
\<close>

theorem C1_counterexample:
  "length (filter isCreateLog (history (run (Update_p1 appendTyped) initialModel secondPass))) = 2
   \<and> map (\<lambda>e. case e of WriteFile p x \<Rightarrow> p | _ \<Rightarrow> [])
        (filter isWriteFile (effects (run (Update_p1 appendTyped) initialModel secondPass))) =
       [''./troubadour_logs/troubadour_SN-42_20250101_120000.log'',
        ''./troubadour_logs/troubadour_SN-42_20250101_120100.log'']
   \<and> gui_logs (checkSN ''WRONG'' gui42) =
       [\<lparr>DisplayTest = True, SerialNumberVerified = False, UserEnteredSN = ''WRONG''\<rparr>]"
  by (simp add: secondPass_history secondPass_effects checkSN_def gui42_def createLogFile_def
      showFinalScreen_def)

section \<open>C2: the sequencer of the display test\<close>

text \<open>
  C2, as amended. The colour is computed anew at every timer tick from the time since
  the start of the test. In the terminal variant of \<^verbatim>\<open>main.go\<close> a tick before 6 s sets
  it to \<open>floor (elapsed / 2) mod 3\<close>; a tick from 6 s on sets it to 3; once it is 3,
  every later tick leaves the model as it is and asks for the next tick, no message but
  a key press (and the never sent \<^verbatim>\<open>videoTestDoneMsg\<close>) ends the test, and any key press
  does, leading to the confirmation screen. In \<^verbatim>\<open>part_000\<close>, with the same interval and
  the same four patterns, a tick before 8 s sets the colour to
  \<open>floor (elapsed / 2) mod 4\<close>, so the last pattern shows from 6 s on, and the first tick
  from 8 s on ends the test by itself.
\<close>

theorem C2_sequencer_at_each_tick:
  "(videoTestActive m \<and> 0 \<le> now - videoTestStart m \<longrightarrow>
      (videoTestColor m \<noteq> 3 \<and> now - videoTestStart m < 6000000000 \<longrightarrow>
         Update ti now videoTestTimerTickMsg m =
           (m\<lparr>videoTestColor := ((now - videoTestStart m) div 2000000000) mod 3\<rparr>, tea_Tick))
      \<and> (videoTestColor m = 3 \<or> 6000000000 \<le> now - videoTestStart m \<longrightarrow>
         Update ti now videoTestTimerTickMsg m = (m\<lparr>videoTestColor := 3\<rparr>, tea_Tick))
      \<and> (videoTestColor m = 3 \<longrightarrow>
         Update ti now videoTestTimerTickMsg m = (m, tea_Tick)
         \<and> (\<forall>msg. (\<forall>k. msg \<noteq> KeyMsg k) \<and> msg \<noteq> videoTestDoneMsg \<longrightarrow>
               videoTestActive (fst (Update ti now msg m))
               \<and> videoTestColor (fst (Update ti now msg m)) = 3)
         \<and> (\<forall>k. Update ti now (KeyMsg k) m =
               (m\<lparr>videoTestActive := False, state := stateAskVideoOk, showOverlay := True\<rparr>,
                nil_cmd))))
   \<and> (videoTestActive m0 \<and> 0 \<le> now - videoTestStart m0 \<longrightarrow>
      (now - videoTestStart m0 < 8000000000 \<longrightarrow>
         Update_p0 ti now videoTestTimerTickMsg m0 =
           (m0\<lparr>videoTestColor := ((now - videoTestStart m0) div 2000000000) mod 4\<rparr>, tea_Tick))
      \<and> (8000000000 \<le> now - videoTestStart m0 \<longrightarrow>
         Update_p0 ti now videoTestTimerTickMsg m0 =
           (m0\<lparr>videoTestActive := False, state := stateAskVideoOk_p0\<rparr>, nil_cmd)))"
proof -
  have main_early: "videoTestActive m \<Longrightarrow> 0 \<le> now - videoTestStart m \<Longrightarrow> videoTestColor m \<noteq> 3
      \<Longrightarrow> now - videoTestStart m < 6000000000 \<Longrightarrow>
      Update ti now videoTestTimerTickMsg m =
        (m\<lparr>videoTestColor := ((now - videoTestStart m) div 2000000000) mod 3\<rparr>, tea_Tick)"
    by (simp add: Update_def onTick_early)
  have main_late: "videoTestActive m \<Longrightarrow> 0 \<le> now - videoTestStart m \<Longrightarrow>
      videoTestColor m = 3 \<or> 6000000000 \<le> now - videoTestStart m \<Longrightarrow>
      Update ti now videoTestTimerTickMsg m = (m\<lparr>videoTestColor := 3\<rparr>, tea_Tick)"
    by (simp add: Update_def onTick_late)
  have held_tick: "videoTestActive m \<Longrightarrow> videoTestColor m = 3 \<Longrightarrow>
      Update ti now videoTestTimerTickMsg m = (m, tea_Tick)"
    by (simp add: Update_def onTick_def)
  have held_key: "videoTestActive m \<Longrightarrow> videoTestColor m = 3 \<Longrightarrow>
      Update ti now (KeyMsg k) m =
        (m\<lparr>videoTestActive := False, state := stateAskVideoOk, showOverlay := True\<rparr>, nil_cmd)" for k
    by (simp add: Update_def onKey_def)
  have p0_early: "videoTestActive m0 \<Longrightarrow> 0 \<le> now - videoTestStart m0 \<Longrightarrow>
      now - videoTestStart m0 < 8000000000 \<Longrightarrow>
      Update_p0 ti now videoTestTimerTickMsg m0 =
        (m0\<lparr>videoTestColor := ((now - videoTestStart m0) div 2000000000) mod 4\<rparr>, tea_Tick)"
    by (simp add: Update_p0_def onTick_p0_early)
  have p0_late: "videoTestActive m0 \<Longrightarrow> 0 \<le> now - videoTestStart m0 \<Longrightarrow>
      8000000000 \<le> now - videoTestStart m0 \<Longrightarrow>
      Update_p0 ti now videoTestTimerTickMsg m0 =
        (m0\<lparr>videoTestActive := False, state := stateAskVideoOk_p0\<rparr>, nil_cmd)"
    by (simp add: Update_p0_def onTick_p0_late)
  show ?thesis
    using main_early main_late held_tick held_key p0_early p0_late
      held_other_messages[of m _ ti now]
    by blast
qed

text \<open>
  A test started at second 1: a tick at once gives colour 0, a tick 2.5 s later colour 1,
  a tick 7 s later colour 3, which a tick a thousand seconds later has not changed.
\<close>

theorem C2_witness:
  "fst (Update appendTyped (sec 1) videoTestTimerTickMsg
      (mdl (run (Update appendTyped) initialModel (take 3 toHeldPattern)))) =
     (mdl (run (Update appendTyped) initialModel (take 3 toHeldPattern)))\<lparr>videoTestColor := 0\<rparr>
   \<and> fst (Update appendTyped (sec 1 + 2500000000) videoTestTimerTickMsg
      (mdl (run (Update appendTyped) initialModel (take 3 toHeldPattern)))) =
     (mdl (run (Update appendTyped) initialModel (take 3 toHeldPattern)))\<lparr>videoTestColor := 1\<rparr>
   \<and> fst (Update appendTyped (sec 8) videoTestTimerTickMsg
      (mdl (run (Update appendTyped) initialModel (take 3 toHeldPattern)))) =
     (mdl (run (Update appendTyped) initialModel (take 3 toHeldPattern)))\<lparr>videoTestColor := 3\<rparr>
   \<and> Update appendTyped (sec 1000) videoTestTimerTickMsg
      (mdl (run (Update appendTyped) initialModel toHeldPattern)) =
     (mdl (run (Update appendTyped) initialModel toHeldPattern), tea_Tick)
   \<and> state (fst (Update appendTyped (sec 1000) (KeyMsg ''x'')
      (mdl (run (Update appendTyped) initialModel toHeldPattern)))) = stateAskVideoOk
   \<and> snd (Update_p0 appendTyped (sec 9) videoTestTimerTickMsg
      (mdl (run (Update_p0 appendTyped) initialModel_p0 toHeldPattern))) = nil_cmd"
proof -
  let ?m = "mdl (run (Update appendTyped) initialModel (take 3 toHeldPattern))"
  let ?h = "mdl (run (Update appendTyped) initialModel toHeldPattern)"
  let ?p = "mdl (run (Update_p0 appendTyped) initialModel_p0 toHeldPattern)"
  have m: "videoTestActive ?m" "videoTestStart ?m = sec 1" "videoTestColor ?m = 0"
    by (simp_all add: session_defs Update_defs)
  have h: "videoTestActive ?h" "videoTestStart ?h = sec 1" "videoTestColor ?h = 3"
    by (simp_all add: session_defs Update_defs)
  have p: "videoTestActive ?p" "videoTestStart ?p = sec 1"
    by (simp_all add: session_defs Update_p0_defs)
  show ?thesis
    using m h p
      C2_sequencer_at_each_tick[of ?m "sec 1" appendTyped ?p]
      C2_sequencer_at_each_tick[of ?m "sec 1 + 2500000000" appendTyped ?p]
      C2_sequencer_at_each_tick[of ?m "sec 8" appendTyped ?p]
      C2_sequencer_at_each_tick[of ?h "sec 1000" appendTyped ?p]
      C2_sequencer_at_each_tick[of ?h "sec 9" appendTyped ?p]
    by (simp add: sec_def)
qed

text \<open>
  \<^verbatim>\<open>part_000\<close>, same start: the tick at 7 s shows the last pattern, the tick at 8 s ends
  the test, and no key has been pressed since the test began.
\<close>

theorem C2_counterexample:
  "videoTestActive (mdl (run (Update_p0 appendTyped) initialModel_p0 toHeldPattern))
   \<and> videoTestColor (mdl (run (Update_p0 appendTyped) initialModel_p0 toHeldPattern)) = 3
   \<and> state (mdl (run (Update_p0 appendTyped) initialModel_p0 toHeldPattern)) = stateVideoTest_p0
   \<and> \<not> videoTestActive (mdl (run (Update_p0 appendTyped) initialModel_p0 unattended))
   \<and> state (mdl (run (Update_p0 appendTyped) initialModel_p0 unattended)) = stateAskVideoOk_p0"
  by (simp add: session_defs Update_p0_defs)

section \<open>C3: the identity verifier\<close>

text \<open>
  C3. \<^verbatim>\<open>checkSerialNumberCmd\<close> answers \<^verbatim>\<open>serialMatchedMsg\<close> exactly when the two strings
  are equal byte for byte: equal serials match, a serial in another case does not, two
  empty strings match; and pressing Enter in the serial-entry state hands the value of
  the text input to the verifier as it is, with no trimming or folding in between.
\<close>

theorem C3_verify_exact:
  "(checkSerialNumberCmd entered system = serialMatchedMsg) = (entered = system)
   \<and> checkSerialNumberCmd ''ABC123'' ''ABC123'' = serialMatchedMsg
   \<and> checkSerialNumberCmd ''abc123'' ''ABC123'' = serialMismatchMsg ''abc123'' ''ABC123''
   \<and> checkSerialNumberCmd [] [] = serialMatchedMsg
   \<and> snd (Update ti now (KeyMsg ''enter'')
        (m\<lparr>state := stateAskSerial, videoTestActive := False\<rparr>))
       = checkSerialCmd (textInput m) (SerialNumber (sysInfo m))"
  by (simp add: checkSerialNumberCmd_def Update_def onKey_def onEnter_def)

section \<open>C4: the flag serialMatched\<close>

text \<open>
  C4, as amended. Handling a mismatch leaves \<^verbatim>\<open>serialMatched\<close> false, handling a match
  leaves it true whatever happened before, no other message turns it from false to
  true, and the match message comes only from a comparison of two equal strings. So the
  flag records the most recent verification; it does not stay false after a mismatch.
  The same holds in \<^verbatim>\<open>part_000\<close>.
\<close>

theorem C4_flag_records_last_verification:
  "\<not> serialMatched (fst (Update ti now (serialMismatchMsg e s) m))
   \<and> serialMatched (fst (Update ti now serialMatchedMsg m))
   \<and> (serialMatched (fst (Update ti now msg m)) \<and> \<not> serialMatched m \<longrightarrow> msg = serialMatchedMsg)
   \<and> \<not> serialMatched (fst (Update_p0 ti now (serialMismatchMsg e s) m0))
   \<and> serialMatched (fst (Update_p0 ti now serialMatchedMsg m0))
   \<and> (serialMatched (fst (Update_p0 ti now msg m0)) \<and> \<not> serialMatched m0 \<longrightarrow>
        msg = serialMatchedMsg)
   \<and> (fst (runCmd w c) = Some serialMatchedMsg \<longrightarrow> (\<exists>x. c = checkSerialCmd x x))
   \<and> (checkSerialNumberCmd entered system = serialMatchedMsg) = (entered = system)"
  using Update_sets_matched[of ti now msg m] Update_p0_sets_matched[of ti now msg m0]
    runCmd_matched[of w c]
  by (simp add: Update_def Update_p0_def checkSerialNumberCmd_def)

theorem C4_witness:
  "serialMatched (fst (Update appendTyped (sec 13) serialMatchedMsg
      (mdl (run (Update appendTyped) initialModel wrongSerial))))
   \<and> \<not> serialMatched (mdl (run (Update appendTyped) initialModel wrongSerial))
   \<and> fst (runCmd healthy (checkSerialCmd ''SN-42'' ''SN-42'')) = Some serialMatchedMsg"
proof -
  let ?m = "mdl (run (Update appendTyped) initialModel wrongSerial)"
  have a: "\<not> serialMatched ?m" by (simp add: session_defs Update_defs)
  have b: "fst (runCmd healthy (checkSerialCmd ''SN-42'' ''SN-42'')) = Some serialMatchedMsg"
    by (simp add: runCmd_def checkSerialNumberCmd_def)
  show ?thesis
    using a b C4_flag_records_last_verification[of appendTyped "sec 13" _ _ ?m serialMatchedMsg
        _ healthy "checkSerialCmd ''SN-42'' ''SN-42''"]
    by simp
qed

text \<open>
  One session: the serial X is reported as a mismatch, the operator retries with SN-42,
  and the flag is true.
\<close>

theorem C4_counterexample:
  "state (mdl (run (Update appendTyped) initialModel wrongSerial)) = stateSerialError
   \<and> \<not> serialMatched (mdl (run (Update appendTyped) initialModel wrongSerial))
   \<and> take (length wrongSerial) retrySession = wrongSerial
   \<and> serialMatched (mdl (run (Update appendTyped) initialModel retrySession))
   \<and> state (mdl (run (Update appendTyped) initialModel retrySession)) = stateSerialSuccess"
  by (simp add: session_defs Update_defs)

section \<open>C5: Retry empties the entry\<close>

text \<open>
  C5. Enter in the serial-mismatch state leads to the serial-entry state with the text
  input emptied and starts no command, in \<^verbatim>\<open>main.go\<close> and in \<^verbatim>\<open>part_000\<close>; and the next
  Enter in the serial-entry state submits what the text input then holds. (The field
  \<^verbatim>\<open>userSerial\<close>, which only the two result screens show, keeps the failed text until
  that next submission overwrites it.) In \<^verbatim>\<open>main.go\<close> the any-key case of the held
  pattern comes first in \<^verbatim>\<open>Update\<close>, hence the second condition of the first
  statement; the second statement is about the mismatch states that a run can reach,
  and needs no condition.
\<close>

theorem C5_retry_clears_entry:
  "(state m = stateSerialError \<and> \<not> (videoTestActive m \<and> videoTestColor m = 3) \<longrightarrow>
      Update ti now (KeyMsg ''enter'') m =
        (m\<lparr>state := stateAskSerial, textInput := []\<rparr>, nil_cmd))
   \<and> (state (mdl (run (Update ti) initialModel evs)) = stateSerialError \<longrightarrow>
      Update ti now (KeyMsg ''enter'') (mdl (run (Update ti) initialModel evs)) =
        ((mdl (run (Update ti) initialModel evs))\<lparr>state := stateAskSerial, textInput := []\<rparr>,
         nil_cmd))
   \<and> (state m0 = stateSerialError_p0 \<longrightarrow>
      Update_p0 ti now (KeyMsg ''enter'') m0 =
        (m0\<lparr>state := stateAskSerial_p0, textInput := []\<rparr>, nil_cmd))
   \<and> (state m = stateAskSerial \<and> \<not> (videoTestActive m \<and> videoTestColor m = 3) \<longrightarrow>
      snd (Update ti now (KeyMsg ''enter'') m)
        = checkSerialCmd (textInput m) (SerialNumber (sysInfo m)))
   \<and> (state m0 = stateAskSerial_p0 \<longrightarrow>
      snd (Update_p0 ti now (KeyMsg ''enter'') m0)
        = checkSerialCmd (textInput m0) (SerialNumber (sysInfo m0)))"
proof -
  have r: "state (mdl (run (Update ti) initialModel evs)) = stateSerialError \<Longrightarrow>
      \<not> videoTestActive (mdl (run (Update ti) initialModel evs))"
    using run_inv[of ti evs] by (auto simp: inv_def activeOk_def)
  show ?thesis
    using r
    by (auto simp: Update_def onKey_def onEnter_def Update_p0_def onKey_p0_def onEnter_p0_def)
qed

theorem C5_witness:
  "state (mdl (run (Update appendTyped) initialModel wrongSerial)) = stateSerialError
   \<and> textInput (mdl (run (Update appendTyped) initialModel wrongSerial)) = ''X''
   \<and> textInput (fst (Update appendTyped (sec 12) (KeyMsg ''enter'')
        (mdl (run (Update appendTyped) initialModel wrongSerial)))) = []
   \<and> state (fst (Update appendTyped (sec 12) (KeyMsg ''enter'')
        (mdl (run (Update appendTyped) initialModel wrongSerial)))) = stateAskSerial
   \<and> textInput (fst (Update_p0 appendTyped (sec 12) (KeyMsg ''enter'')
        (mdl (run (Update_p0 appendTyped) initialModel_p0 wrongSerial_p0)))) = []"
proof -
  let ?m = "mdl (run (Update appendTyped) initialModel wrongSerial)"
  let ?p = "mdl (run (Update_p0 appendTyped) initialModel_p0 wrongSerial_p0)"
  have a: "state ?m = stateSerialError" "\<not> videoTestActive ?m" "textInput ?m = ''X''"
    by (simp_all add: session_defs Update_defs)
  have b: "state ?p = stateSerialError_p0"
    by (simp add: session_defs Update_p0_defs)
  show ?thesis
    using a b C5_retry_clears_entry[of ?m appendTyped "sec 12" wrongSerial ?p] by simp
qed

section \<open>C6: what the log record holds\<close>

text \<open>
  In the runs of \<^verbatim>\<open>main.go\<close>'s terminal variant the line "Entered Serial Number" of a
  written log does hold the operator's last submission, because a log is written only
  after an exact match.
\<close>

lemma main_go_log_shows_entry:
  assumes "WriteFile p x \<in> set (effects (run (Update ti) initialModel evs))"
  shows "sublist (''Entered Serial Number: ''
            @ userSerial (mdl (run (Update ti) initialModel evs)) @ ''\<newline>'') x"
proof -
  let ?c = "run (Update ti) initialModel evs"
  have I: "inv ?c" by (rule run_inv)
  with assms have l: "logging (state (mdl ?c))" unfolding inv_def by blast
  from I assms obtain date where
    x: "x = logContent date (sysInfo (mdl ?c)) (dmidecodeRaw (mdl ?c)) (testPassed (mdl ?c)) True"
    unfolding inv_def by blast
  from I l have "userSerial (mdl ?c) = SerialNumber (sysInfo (mdl ?c))"
    unfolding inv_def by blast
  then show ?thesis unfolding x using content_entered by simp
qed

text \<open>
  C6. The text that \<^verbatim>\<open>createLogFilesCmd\<close> writes holds every field of the inventory,
  the outcome of the display test, the verification result, the date and, at its end,
  the raw \<^verbatim>\<open>dmidecode\<close> output; but its line "Entered Serial Number" prints
  \<^verbatim>\<open>info.SerialNumber\<close>, and the log command that Enter starts on the success screen
  carries the inventory, the raw output and the test outcome, not \<^verbatim>\<open>userSerial\<close>. In
  the session \<open>lateAnswer\<close> of \<^verbatim>\<open>part_001\<close> the success screen opens while the last
  submission is SN-42x, and the log then written shows SN-42 as entered and holds SN-42x
  nowhere.
\<close>

theorem C6_entered_line_prints_the_system_serial:
  "sublist (''Entered Serial Number: '' @ SerialNumber info @ ''\<newline>'')
      (logContent date info raw passed matched)
   \<and> mentionsInventory info (logContent date info raw passed matched)
   \<and> sublist (''Video Test Passed: '' @ Sprintf_t passed @ ''\<newline>'')
        (logContent date info raw passed matched)
   \<and> sublist (''Serial Number Check: '' @ Sprintf_t matched @ ''\<newline>'')
        (logContent date info raw passed matched)
   \<and> sublist (''Date: '' @ date @ ''\<newline>'') (logContent date info raw passed matched)
   \<and> suffix (''==== RAW DMIDECODE DATA ====\<newline>'' @ raw)
        (logContent date info raw passed matched)
   \<and> snd (Update ti now (KeyMsg ''enter'')
        (m\<lparr>state := stateSerialSuccess, videoTestActive := False\<rparr>))
       = createLogCmd (sysInfo m) (dmidecodeRaw m) (testPassed m) True
   \<and> state (mdl (run (Update_p1 appendTyped) initialModel (take 21 lateAnswer)))
       = stateSerialSuccess
   \<and> userSerial (mdl (run (Update_p1 appendTyped) initialModel (take 21 lateAnswer)))
       = ''SN-42x''
   \<and> isCreateLog (snd (Update_p1 appendTyped (sec 23) (KeyMsg ''enter'')
        (mdl (run (Update_p1 appendTyped) initialModel (take 21 lateAnswer)))))
   \<and> userSerial (mdl (run (Update_p1 appendTyped) initialModel lateAnswer)) = ''SN-42x''
   \<and> effects (run (Update_p1 appendTyped) initialModel lateAnswer) =
       [MkdirAll logsDir,
        WriteFile ''./troubadour_logs/troubadour_SN-42_20250101_120000.log''
          (logContent ''Wed, 01 Jan 2025 12:00:00 UTC'' info42 raw42 True True)]
   \<and> \<not> sublist ''SN-42x''
        (logContent ''Wed, 01 Jan 2025 12:00:00 UTC'' info42 raw42 True True)"
proof -
  have e: "snd (Update ti now (KeyMsg ''enter'')
        (m\<lparr>state := stateSerialSuccess, videoTestActive := False\<rparr>))
       = createLogCmd (sysInfo m) (dmidecodeRaw m) (testPassed m) True"
    by (simp add: Update_defs)
  show ?thesis
    using content_entered[of info date raw passed matched]
      content_inventory[of info date raw passed matched]
      content_passed[of passed date info raw matched]
      content_matched[of matched date info raw passed]
      content_date[of date info raw passed matched]
      content_raw[of raw date info passed matched]
      e lateAnswer_before lateAnswer_model(1) lateAnswer_effects not_sub
    by simp
qed

section \<open>C7: Reboot and Shutdown\<close>

text \<open>
  C7, as amended. In the serial-mismatch state the keys \<^verbatim>\<open>r\<close> and \<^verbatim>\<open>e\<close> leave the
  model as it is and return a command; the command runs \<^verbatim>\<open>reboot\<close> (or \<^verbatim>\<open>poweroff\<close>)
  with \<^verbatim>\<open>exec.Command(...).Run()\<close>, which returns when the program it started has
  ended, and then sends \<^verbatim>\<open>restartMsg\<close> (or \<^verbatim>\<open>shutdownMsg\<close>). \<^verbatim>\<open>Update\<close> has no case for
  these messages: in the mismatch state it returns the model unchanged with no command,
  and in no state does it answer them with \<^verbatim>\<open>tea.Quit\<close>. So the wizard does not exit by
  itself after the power command. The same holds in \<^verbatim>\<open>part_000\<close>.
\<close>

theorem C7_power_commands_do_not_quit:
  "(state m = stateSerialError \<and> \<not> (videoTestActive m \<and> videoTestColor m = 3) \<longrightarrow>
      Update ti now (KeyMsg ''r'') m = (m, rebootCmd)
      \<and> Update ti now (KeyMsg ''e'') m = (m, poweroffCmd))
   \<and> (state m = stateSerialError \<longrightarrow>
      Update ti now restartMsg m = (m, nil_cmd) \<and> Update ti now shutdownMsg m = (m, nil_cmd))
   \<and> snd (Update ti now restartMsg m) \<noteq> tea_Quit
   \<and> snd (Update ti now shutdownMsg m) \<noteq> tea_Quit
   \<and> (state m0 = stateSerialError_p0 \<longrightarrow>
      Update_p0 ti now (KeyMsg ''r'') m0 = (m0, rebootCmd)
      \<and> Update_p0 ti now (KeyMsg ''e'') m0 = (m0, poweroffCmd)
      \<and> Update_p0 ti now restartMsg m0 = (m0, nil_cmd)
      \<and> Update_p0 ti now shutdownMsg m0 = (m0, nil_cmd))
   \<and> snd (Update_p0 ti now restartMsg m0) \<noteq> tea_Quit
   \<and> snd (Update_p0 ti now shutdownMsg m0) \<noteq> tea_Quit
   \<and> runCmd w rebootCmd = (Some restartMsg, [exec_Run ''reboot''])
   \<and> runCmd w poweroffCmd = (Some shutdownMsg, [exec_Run ''poweroff''])
   \<and> (state (mdl (run (Update ti) initialModel evs)) = stateSerialError \<longrightarrow>
      Update ti now (KeyMsg ''r'') (mdl (run (Update ti) initialModel evs))
        = (mdl (run (Update ti) initialModel evs), rebootCmd)
      \<and> Update ti now (KeyMsg ''e'') (mdl (run (Update ti) initialModel evs))
        = (mdl (run (Update ti) initialModel evs), poweroffCmd))"
  using run_inv[of ti evs]
    Update_power_msgs_no_quit[of restartMsg ti now m]
    Update_power_msgs_no_quit[of shutdownMsg ti now m]
    Update_p0_power_msgs_no_quit[of restartMsg ti now m0]
    Update_p0_power_msgs_no_quit[of shutdownMsg ti now m0]
  by (auto simp: Update_def onKey_def components_def Update_p0_def onKey_p0_def
        components_p0_def runCmd_def inv_def activeOk_def)

theorem C7_witness:
  "Update appendTyped (sec 12) (KeyMsg ''r'')
      (mdl (run (Update appendTyped) initialModel wrongSerial)) =
     (mdl (run (Update appendTyped) initialModel wrongSerial), rebootCmd)
   \<and> Update appendTyped (sec 13) restartMsg
      (mdl (run (Update appendTyped) initialModel wrongSerial)) =
     (mdl (run (Update appendTyped) initialModel wrongSerial), nil_cmd)
   \<and> Update_p0 appendTyped (sec 12) (KeyMsg ''e'')
      (mdl (run (Update_p0 appendTyped) initialModel_p0 wrongSerial_p0)) =
     (mdl (run (Update_p0 appendTyped) initialModel_p0 wrongSerial_p0), poweroffCmd)"
proof -
  let ?m = "mdl (run (Update appendTyped) initialModel wrongSerial)"
  let ?p = "mdl (run (Update_p0 appendTyped) initialModel_p0 wrongSerial_p0)"
  have a: "state ?m = stateSerialError" "\<not> videoTestActive ?m"
    by (simp_all add: session_defs Update_defs)
  have b: "state ?p = stateSerialError_p0"
    by (simp add: session_defs Update_p0_defs)
  show ?thesis
    using a b C7_power_commands_do_not_quit[of ?m appendTyped "sec 12" ?p]
      C7_power_commands_do_not_quit[of ?m appendTyped "sec 13" ?p]
    by simp
qed

text \<open>
  After a mismatch the operator presses \<^verbatim>\<open>r\<close> and \<^verbatim>\<open>reboot\<close> has run to its end: the
  loop has not ended, no \<^verbatim>\<open>tea.Quit\<close> is pending, and the wizard still shows the
  mismatch.
\<close>

theorem C7_counterexample:
  "state (mdl (run (Update appendTyped) initialModel wrongSerial)) = stateSerialError
   \<and> effects (run (Update appendTyped) initialModel rebootAfterMismatch) = [exec_Run ''reboot'']
   \<and> last (history (run (Update appendTyped) initialModel rebootAfterMismatch)) = rebootCmd
   \<and> \<not> finished (run (Update appendTyped) initialModel rebootAfterMismatch)
   \<and> tea_Quit \<notin> set (pending (run (Update appendTyped) initialModel rebootAfterMismatch))
   \<and> state (mdl (run (Update appendTyped) initialModel rebootAfterMismatch)) = stateSerialError"
  by (simp add: session_defs Update_defs)

section \<open>C8: the quit keys\<close>

text \<open>
  C8, as amended. In the terminal variant of \<^verbatim>\<open>main.go\<close> the keys \<^verbatim>\<open>q\<close> and \<^verbatim>\<open>ctrl+c\<close>
  answer with \<^verbatim>\<open>tea.Quit\<close> and an unchanged model in every state, except while the held
  last pattern of the display test is shown: there the key only dismisses the pattern,
  and the same key pressed again quits. In \<^verbatim>\<open>part_000\<close>, which holds no pattern, they
  quit in every state. When the runtime comes to a pending \<^verbatim>\<open>tea.Quit\<close> the loop ends
  and neither the model nor the effects change; after that no event changes anything.
  The key handler of the windowed display test ignores every key but Y, Return and N.
\<close>

theorem C8_quit_keys:
  "(k = ''q'' \<or> k = ''ctrl+c'' \<longrightarrow>
      (\<not> (videoTestActive m \<and> videoTestColor m = 3) \<longrightarrow>
         Update ti now (KeyMsg k) m = (m, tea_Quit))
      \<and> (videoTestActive m \<and> videoTestColor m = 3 \<longrightarrow>
         Update ti now (KeyMsg k) m =
           (m\<lparr>videoTestActive := False, state := stateAskVideoOk, showOverlay := True\<rparr>,
            nil_cmd)
         \<and> Update ti now (KeyMsg k)
             (m\<lparr>videoTestActive := False, state := stateAskVideoOk, showOverlay := True\<rparr>) =
           (m\<lparr>videoTestActive := False, state := stateAskVideoOk, showOverlay := True\<rparr>,
            tea_Quit))
      \<and> Update_p0 ti now (KeyMsg k) m0 = (m0, tea_Quit))
   \<and> (tea_Quit \<in> set (pending c) \<and> \<not> finished c \<longrightarrow>
        step upd c (now, Complete tea_Quit w) =
          c\<lparr>pending := remove1 tea_Quit (pending c), history := history c @ [tea_Quit],
            finished := True\<rparr>)
   \<and> (finished c \<longrightarrow> step upd c e = c)
   \<and> (key \<noteq> ''Y'' \<and> key \<noteq> ''Return'' \<and> key \<noteq> ''N'' \<longrightarrow> onTypedKey key g = g)"
  by (auto simp: Update_def onKey_def Update_p0_def onKey_p0_def step_def complete_def
        onTypedKey_def)

theorem C8_witness:
  "Update appendTyped (sec 12) (KeyMsg ''q'')
      (mdl (run (Update appendTyped) initialModel wrongSerial)) =
     (mdl (run (Update appendTyped) initialModel wrongSerial), tea_Quit)
   \<and> snd (Update appendTyped (sec 9) (KeyMsg ''ctrl+c'')
        (mdl (run (Update appendTyped) initialModel toHeldPattern))) = nil_cmd
   \<and> finished (step (Update appendTyped)
        (run (Update appendTyped) initialModel (wrongSerial @ [(sec 12, Press ''q'')]))
        (sec 12, Complete tea_Quit healthy))"
proof -
  let ?m = "mdl (run (Update appendTyped) initialModel wrongSerial)"
  let ?h = "mdl (run (Update appendTyped) initialModel toHeldPattern)"
  let ?c = "run (Update appendTyped) initialModel (wrongSerial @ [(sec 12, Press ''q'')])"
  have a: "\<not> videoTestActive ?m" by (simp add: session_defs Update_defs)
  have h: "videoTestActive ?h" "videoTestColor ?h = 3"
    by (simp_all add: session_defs Update_defs)
  have c: "tea_Quit \<in> set (pending ?c)" "\<not> finished ?c"
    by (simp_all add: session_defs Update_defs)
  note q = C8_quit_keys[of "''q''" ?m appendTyped "sec 12" _ ?c "Update appendTyped" healthy]
  note cc = C8_quit_keys[of "''ctrl+c''" ?h appendTyped "sec 9" _ ?c "Update appendTyped" healthy]
  have 1: "Update appendTyped (sec 12) (KeyMsg ''q'') ?m = (?m, tea_Quit)"
    using a q by simp
  have 2: "snd (Update appendTyped (sec 9) (KeyMsg ''ctrl+c'') ?h) = nil_cmd"
    using h cc by simp
  have 3: "finished (step (Update appendTyped) ?c (sec 12, Complete tea_Quit healthy))"
    using c q by simp
  show ?thesis using 1 2 3 by simp
qed

text \<open>
  While the held pattern is shown, \<^verbatim>\<open>q\<close> starts no command: the loop goes on, on the
  confirmation screen. In the windowed display test Q and Escape do nothing.
\<close>

theorem C8_counterexample:
  "videoTestActive (mdl (run (Update appendTyped) initialModel toHeldPattern))
   \<and> videoTestColor (mdl (run (Update appendTyped) initialModel toHeldPattern)) = 3
   \<and> snd (Update appendTyped (sec 9) (KeyMsg ''q'')
        (mdl (run (Update appendTyped) initialModel toHeldPattern))) = nil_cmd
   \<and> \<not> finished (run (Update appendTyped) initialModel
        (toHeldPattern @ [(sec 9, Press ''q''), (sec 9, Complete tea_Quit healthy)]))
   \<and> state (mdl (run (Update appendTyped) initialModel
        (toHeldPattern @ [(sec 9, Press ''q''), (sec 9, Complete tea_Quit healthy)])))
      = stateAskVideoOk
   \<and> onTypedKey ''Q'' gui42 = gui42 \<and> onTypedKey ''Escape'' gui42 = gui42"
  by (simp add: session_defs Update_defs onTypedKey_def)

section \<open>C9: the exit code\<close>

text \<open>
  C9, as amended. Without root the process leaves with 1 before the wizard starts. With
  root, and unless the terminal runtime itself reports an error, the exit code is 0
  once the loop has ended, however it ended: the exit code is 1 only without root or
  after an error of the runtime. A failed inventory or a failed log write reaches
  \<^verbatim>\<open>Update\<close> as \<^verbatim>\<open>errMsg\<close>, which stores the error in the model and answers with
  \<^verbatim>\<open>tea.Quit\<close>, an ordinary end of the loop; \<^verbatim>\<open>main\<close> never looks at the model.
\<close>

theorem C9_exit_codes:
  "(uid \<noteq> 0 \<longrightarrow> main ti uid evs = Some 1)
   \<and> (uid = 0 \<and> (\<forall>t. (t, RuntimeError) \<notin> set evs) \<longrightarrow>
        main ti uid evs = (if finished (run (Update ti) initialModel evs) then Some 0 else None))
   \<and> (main ti uid evs = Some 1 \<longrightarrow> uid \<noteq> 0 \<or> (\<exists>t. (t, RuntimeError) \<in> set evs))
   \<and> Update ti now (errMsg e) m = (m\<lparr>err := Some e\<rparr>, tea_Quit)
   \<and> runCmd (w\<lparr>probe := Inl e\<rparr>) collectSystemInfoCmd = (Some (errMsg e), [])
   \<and> fst (createLogFilesCmd (w\<lparr>mkdirErr := Some e\<rparr>) info raw passed matched) = errMsg e
   \<and> fst (createLogFilesCmd (w\<lparr>mkdirErr := None, writeErr := Some e\<rparr>) info raw passed matched)
       = errMsg e"
proof -
  have a: "uid = 0 \<Longrightarrow> \<forall>t. (t, RuntimeError) \<notin> set evs \<Longrightarrow>
      main ti uid evs = (if finished (run (Update ti) initialModel evs) then Some 0 else None)"
    using run_runErr[of "Update ti" initialModel evs] by (auto simp: main_def)
  have b: "main ti uid evs = Some 1 \<Longrightarrow> uid \<noteq> 0 \<or> (\<exists>t. (t, RuntimeError) \<in> set evs)"
    using run_runErr[of "Update ti" initialModel evs] by (auto simp: main_def split: if_splits)
  show ?thesis
    using a b by (simp add: main_def Update_def runCmd_def createLogFilesCmd_def)
qed

theorem C9_witness:
  "main appendTyped 1000 fullSession = Some 1
   \<and> main appendTyped 0 fullSession = Some 0
   \<and> main appendTyped 0 (fullSession @ [(sec 16, RuntimeError)]) = Some 0
   \<and> main appendTyped 0 (toSuccess @ [(sec 16, RuntimeError)]) = Some 1"
proof -
  have f: "finished (run (Update appendTyped) initialModel fullSession)"
    by (simp add: session_defs Update_defs)
  have n: "\<forall>t. (t, RuntimeError) \<notin> set fullSession"
    by (simp add: session_defs)
  have k: "main appendTyped 0 (toSuccess @ [(sec 16, RuntimeError)]) = Some 1"
    by (simp add: main_def session_defs Update_defs)
  have g: "main appendTyped 0 (fullSession @ [(sec 16, RuntimeError)]) = Some 0"
    by (simp add: main_def session_defs Update_defs)
  show ?thesis
    using f n k g C9_exit_codes[of 1000 appendTyped fullSession]
      C9_exit_codes[of 0 appendTyped fullSession]
      C9_exit_codes[of 0 appendTyped "toSuccess @ [(sec 16, RuntimeError)]"]
    by simp
qed

text \<open>
  The probe fails, or the disk is full when the log is written: the error is in the
  model, no log file exists, and the exit code is 0.
\<close>

theorem C9_counterexample:
  "err (mdl (run (Update appendTyped) initialModel inventoryFails))
     = Some ''dmidecode: command not found''
   \<and> main appendTyped 0 inventoryFails = Some 0
   \<and> err (mdl (run (Update appendTyped) initialModel logFails)) = Some ''no space left on device''
   \<and> filter isWriteFile (effects (run (Update appendTyped) initialModel logFails)) = []
   \<and> main appendTyped 0 logFails = Some 0"
  by (simp add: main_def session_defs Update_defs isWriteFile_def logsDir_def)

section \<open>C10: the key q in the serial entry\<close>

text \<open>
  C10, as amended. The key \<^verbatim>\<open>q\<close> never reaches the text input. In the serial-entry
  state, and in every serial-entry state that a run reaches, it answers with
  \<^verbatim>\<open>tea.Quit\<close> and leaves the model as it is; in every state and in all three terminal
  variants it leaves the value of the text input as it is, and the answer of
  \<^verbatim>\<open>Update\<close> to it does not depend on the text input at all. So the key q cannot put
  a q into the entry. The entry can still receive one from another message: whenever a
  run has a q in the entry or in the submitted serial, or reaches a match, the success
  screen, the log states or a written log on a machine whose serial holds a q, the text
  input is one whose value gains a q from a message other than the key q.
\<close>

theorem C10_the_key_q_bypasses_the_entry:
  "(state m = stateAskSerial \<and> \<not> (videoTestActive m \<and> videoTestColor m = 3) \<longrightarrow>
      Update ti now (KeyMsg ''q'') m = (m, tea_Quit))
   \<and> textInput (fst (Update ti now (KeyMsg ''q'') m)) = textInput m
   \<and> Update ti now (KeyMsg ''q'') m = Update ti' now (KeyMsg ''q'') m
   \<and> Update_p0 ti now (KeyMsg ''q'') m0 = (m0, tea_Quit)
   \<and> textInput (fst (Update_p1 ti now (KeyMsg ''q'') m)) = textInput m
   \<and> (state (mdl (run (Update ti) initialModel evs)) = stateAskSerial \<longrightarrow>
        Update ti now (KeyMsg ''q'') (mdl (run (Update ti) initialModel evs))
          = (mdl (run (Update ti) initialModel evs), tea_Quit))
   \<and> textInput (mdl (step (Update ti) (run (Update ti) initialModel evs) (now, Press ''q'')))
       = textInput (mdl (run (Update ti) initialModel evs))
   \<and> (CHR ''q'' \<in> set (textInput (mdl (run (Update ti) initialModel evs)))
        \<or> CHR ''q'' \<in> set (userSerial (mdl (run (Update ti) initialModel evs)))
        \<or> (CHR ''q'' \<in> set (SerialNumber (sysInfo (mdl (run (Update ti) initialModel evs))))
            \<and> (serialMatched (mdl (run (Update ti) initialModel evs))
               \<or> state (mdl (run (Update ti) initialModel evs)) = stateSerialSuccess
               \<or> logging (state (mdl (run (Update ti) initialModel evs)))
               \<or> filter isWriteFile (effects (run (Update ti) initialModel evs)) \<noteq> []))
      \<longrightarrow> (\<exists>msg v. msg \<noteq> KeyMsg ''q'' \<and> CHR ''q'' \<notin> set v \<and> CHR ''q'' \<in> set (ti msg v)))"
proof -
  let ?c = "run (Update ti) initialModel evs"
  have 1: "state m = stateAskSerial \<Longrightarrow> \<not> (videoTestActive m \<and> videoTestColor m = 3) \<Longrightarrow>
      Update ti now (KeyMsg ''q'') m = (m, tea_Quit)"
    by (simp add: Update_def onKey_def)
  have 2: "textInput (fst (Update ti now (KeyMsg ''q'') m)) = textInput m" for m :: "state model"
    by (simp add: Update_def onKey_def)
  have 3: "Update ti now (KeyMsg ''q'') m = Update ti' now (KeyMsg ''q'') m"
    by (simp add: Update_def onKey_def)
  have 4: "Update_p0 ti now (KeyMsg ''q'') m0 = (m0, tea_Quit)"
    by (simp add: Update_p0_defs)
  have 5: "textInput (fst (Update_p1 ti now (KeyMsg ''q'') m)) = textInput m"
    by (simp add: Update_p1_defs Update_def onKey_def)
  have I: "inv ?c" by (rule run_inv)
  have 6: "state (mdl ?c) = stateAskSerial \<Longrightarrow>
      Update ti now (KeyMsg ''q'') (mdl ?c) = (mdl ?c, tea_Quit)"
    using I by (auto simp: inv_def activeOk_def Update_def onKey_def)
  have 7: "textInput (mdl (step (Update ti) ?c (now, Press ''q''))) = textInput (mdl ?c)"
    using 2[of "mdl ?c"] by (simp add: step_def deliver_def split_beta)
  have 8: "\<not> qfree ?c \<Longrightarrow>
      \<exists>msg v. msg \<noteq> KeyMsg ''q'' \<and> CHR ''q'' \<notin> set v \<and> CHR ''q'' \<in> set (ti msg v)"
    by (rule q_enters_otherwise)
  have 9: "CHR ''q'' \<in> set (SerialNumber (sysInfo (mdl ?c))) \<and>
      (serialMatched (mdl ?c) \<or> state (mdl ?c) = stateSerialSuccess
       \<or> logging (state (mdl ?c)) \<or> filter isWriteFile (effects ?c) \<noteq> []) \<Longrightarrow> \<not> qfree ?c"
    using match_needs_q_entered[of ti evs] by blast
  have 10: "CHR ''q'' \<in> set (textInput (mdl ?c)) \<or> CHR ''q'' \<in> set (userSerial (mdl ?c))
      \<Longrightarrow> \<not> qfree ?c"
    by (auto simp: qfree_def)
  show ?thesis using 1 2[of m] 3 4 5 6 7 8 9 10 by blast
qed

text \<open>
  A session that presses q in the serial entry and is ended by it, and the session
  \<open>pasteQ\<close>, whose match the text input owes to the key message of the runes q and 7.
\<close>

theorem C10_witness:
  "state (mdl (run (Update appendRunes) initialModel (butlast (butlast quitOnQ)))) = stateAskSerial
   \<and> Update appendRunes (sec 11) (KeyMsg ''q'')
        (mdl (run (Update appendRunes) initialModel (butlast (butlast quitOnQ)))) =
       (mdl (run (Update appendRunes) initialModel (butlast (butlast quitOnQ))), tea_Quit)
   \<and> finished (run (Update appendRunes) initialModel quitOnQ)
   \<and> textInput (mdl (run (Update appendRunes) initialModel quitOnQ)) = []
   \<and> CHR ''q'' \<in> set (SerialNumber (sysInfo (mdl (run (Update appendRunes) initialModel pasteQ))))
   \<and> serialMatched (mdl (run (Update appendRunes) initialModel pasteQ))
   \<and> (\<exists>msg v. msg \<noteq> KeyMsg ''q'' \<and> CHR ''q'' \<notin> set v \<and> CHR ''q'' \<in> set (appendRunes msg v))"
proof -
  let ?evs = "butlast (butlast quitOnQ)"
  let ?b = "mdl (run (Update appendRunes) initialModel ?evs)"
  have s: "state ?b = stateAskSerial" "\<not> videoTestActive ?b"
    by (simp_all add: session_defs Update_defs quitOnQ_def healthyQ_def infoQ_def
          appendRunes_def namedKeys_def)
  have f: "finished (run (Update appendRunes) initialModel quitOnQ)"
    "textInput (mdl (run (Update appendRunes) initialModel quitOnQ)) = []"
    by (simp_all add: session_defs Update_defs quitOnQ_def healthyQ_def infoQ_def
          appendRunes_def namedKeys_def)
  have p: "CHR ''q'' \<in> set (SerialNumber (sysInfo (mdl (run (Update appendRunes) initialModel pasteQ))))"
    "serialMatched (mdl (run (Update appendRunes) initialModel pasteQ))"
    by (simp_all add: pasteQ_run)
  note a = C10_the_key_q_bypasses_the_entry[of ?b appendRunes "sec 11" _ _ ?evs]
  note b = C10_the_key_q_bypasses_the_entry[of _ appendRunes _ _ _ pasteQ]
  have 1: "Update appendRunes (sec 11) (KeyMsg ''q'') ?b = (?b, tea_Quit)"
    using s a by simp
  have 2: "\<exists>msg v. msg \<noteq> KeyMsg ''q'' \<and> CHR ''q'' \<notin> set v \<and> CHR ''q'' \<in> set (appendRunes msg v)"
    using p b by blast
  show ?thesis using s f p 1 2 by simp
qed

text \<open>
  The claim as stated fails: the serial q7 holds a q, no key q is pressed, the runes q
  and 7 arrive in one key message, which is not the quit key and is passed to the text
  input; the submitted serial matches and the log is written.
\<close>

theorem C10_counterexample:
  "CHR ''q'' \<in> set (SerialNumber (sysInfo (mdl (run (Update appendRunes) initialModel pasteQ))))
   \<and> Press ''q'' \<notin> snd ` set pasteQ
   \<and> appendRunes (KeyMsg ''q7'') [] = ''q7''
   \<and> userSerial (mdl (run (Update appendRunes) initialModel pasteQ)) = ''q7''
   \<and> serialMatched (mdl (run (Update appendRunes) initialModel pasteQ))
   \<and> state (mdl (run (Update appendRunes) initialModel pasteQ)) = stateDone
   \<and> length (filter isWriteFile (effects (run (Update appendRunes) initialModel pasteQ))) = 1"
proof -
  have 1: "Press ''q'' \<notin> snd ` set pasteQ" by (simp add: pasteQ_def)
  have 2: "appendRunes (KeyMsg ''q7'') [] = ''q7''" by (simp add: appendRunes_def namedKeys_def)
  show ?thesis using 1 2 by (simp add: pasteQ_run)
qed

end
